theory Spec2Isabelle
  imports Complex_Main "HOL-Library.Word"
begin

unbundle bit_operations_syntax

section \<open>Values of the JavaScript runtime\<close>

text \<open>
  A JavaScript string is a sequence of UTF-16 code units; a \<open>Buffer\<close> is a sequence of
  bytes. Counters that the code only ever increments from zero are naturals,
  \<open>Date.now()\<close> is an integer of milliseconds.
\<close>

type_synonym byte = "8 word"
type_synonym jsstring = "16 word list"
type_synonym Buffer = "byte list"

definition js :: "string \<Rightarrow> jsstring" where
  "js s = map (\<lambda>c. of_nat (of_char c)) s"

subsection \<open>Numbers\<close>

text \<open>
  A \<open>number\<close> is an IEEE 754 double: a finite value, an infinity or \<open>NaN\<close>. \<open>Fin x\<close>
  is the double whose value is the real \<open>x\<close>; the two zeros are both \<open>Fin 0\<close> (they
  compare equal, and nothing modelled here divides by a zero or prints one).
\<close>

datatype jsnum = Fin real | PosInf | NegInf | NaN

text \<open>
  Rounding to the nearest double, ties to the even significand. The exponent of a real
  is that of its binade, not below that of the subnormals; a double is a multiple of the
  quantum \<open>2^(exponent - 52)\<close>; a result of magnitude \<open>2^1024\<close> or more overflows.
\<close>

definition round_half_even :: "real \<Rightarrow> int" where
  "round_half_even z =
     (let f = \<lfloor>z\<rfloor>; d = z - of_int f
      in if d < 1 / 2 then f else if 1 / 2 < d then f + 1 else if even f then f else f + 1)"

definition exponent :: "real \<Rightarrow> int" where
  "exponent x = (if x = 0 then - 1022 else max \<lfloor>log 2 \<bar>x\<bar>\<rfloor> (- 1022))"

definition nearest :: "real \<Rightarrow> real" where
  "nearest x =
     (let q = 2 powi (exponent x - 52)
      in of_int (round_half_even (x / q)) * q)"

definition overflowThreshold :: real where
  "overflowThreshold = 2 ^ 1024"

definition round_double :: "real \<Rightarrow> jsnum" where
  "round_double x =
     (let y = nearest x
      in if overflowThreshold \<le> y then PosInf
         else if y \<le> - overflowThreshold then NegInf
         else Fin y)"

text \<open>
  A value of the program is a double. \<open>Fin x\<close> is one when rounding leaves \<open>x\<close> as it
  is.
\<close>

definition isDouble :: "jsnum \<Rightarrow> bool" where
  "isDouble v = (case v of Fin x \<Rightarrow> round_double x = Fin x | _ \<Rightarrow> True)"

text \<open>The operators \<open>-a\<close>, \<open>a * b\<close>, \<open>a + b\<close>, \<open>a - b\<close>, \<open>a <= b\<close>, \<open>a < b\<close>, \<open>a > b\<close>.\<close>

fun js_neg :: "jsnum \<Rightarrow> jsnum" where
  "js_neg (Fin x) = Fin (- x)"
| "js_neg PosInf = NegInf"
| "js_neg NegInf = PosInf"
| "js_neg NaN = NaN"

text \<open>An infinity times the finite \<open>x\<close>.\<close>

definition inf_times :: "real \<Rightarrow> jsnum" where
  "inf_times x = (if x = 0 then NaN else if 0 < x then PosInf else NegInf)"

fun js_mul :: "jsnum \<Rightarrow> jsnum \<Rightarrow> jsnum" where
  "js_mul NaN b = NaN"
| "js_mul a NaN = NaN"
| "js_mul (Fin x) (Fin y) = round_double (x * y)"
| "js_mul (Fin x) PosInf = inf_times x"
| "js_mul (Fin x) NegInf = inf_times (- x)"
| "js_mul PosInf (Fin y) = inf_times y"
| "js_mul NegInf (Fin y) = inf_times (- y)"
| "js_mul PosInf PosInf = PosInf"
| "js_mul PosInf NegInf = NegInf"
| "js_mul NegInf PosInf = NegInf"
| "js_mul NegInf NegInf = PosInf"

fun js_add :: "jsnum \<Rightarrow> jsnum \<Rightarrow> jsnum" where
  "js_add NaN b = NaN"
| "js_add a NaN = NaN"
| "js_add (Fin x) (Fin y) = round_double (x + y)"
| "js_add (Fin x) PosInf = PosInf"
| "js_add (Fin x) NegInf = NegInf"
| "js_add PosInf (Fin y) = PosInf"
| "js_add NegInf (Fin y) = NegInf"
| "js_add PosInf PosInf = PosInf"
| "js_add PosInf NegInf = NaN"
| "js_add NegInf PosInf = NaN"
| "js_add NegInf NegInf = NegInf"

definition js_sub :: "jsnum \<Rightarrow> jsnum \<Rightarrow> jsnum" where
  "js_sub a b = js_add a (js_neg b)"

fun js_le :: "jsnum \<Rightarrow> jsnum \<Rightarrow> bool" where
  "js_le NaN b = False"
| "js_le a NaN = False"
| "js_le (Fin x) (Fin y) = (x \<le> y)"
| "js_le NegInf b = True"
| "js_le a PosInf = True"
| "js_le PosInf b = False"
| "js_le a NegInf = False"

fun js_lt :: "jsnum \<Rightarrow> jsnum \<Rightarrow> bool" where
  "js_lt NaN b = False"
| "js_lt a NaN = False"
| "js_lt (Fin x) (Fin y) = (x < y)"
| "js_lt PosInf b = False"
| "js_lt a NegInf = False"
| "js_lt NegInf b = True"
| "js_lt a PosInf = True"

definition js_gt :: "jsnum \<Rightarrow> jsnum \<Rightarrow> bool" where
  "js_gt a b = js_lt b a"

text \<open>\<open>Math.min\<close>, \<open>Math.max\<close> and \<open>Math.floor\<close>; \<open>NaN\<close> is contagious.\<close>

definition Math_min :: "jsnum \<Rightarrow> jsnum \<Rightarrow> jsnum" where
  "Math_min a b = (if a = NaN \<or> b = NaN then NaN else if js_le a b then a else b)"

definition Math_max :: "jsnum \<Rightarrow> jsnum \<Rightarrow> jsnum" where
  "Math_max a b = (if a = NaN \<or> b = NaN then NaN else if js_le a b then b else a)"

fun Math_floor :: "jsnum \<Rightarrow> jsnum" where
  "Math_floor (Fin x) = Fin (of_int \<lfloor>x\<rfloor>)"
| "Math_floor a = a"

subsection \<open>Decoded values\<close>

text \<open>Values as \<open>JSON.parse\<close> produces them, and \<open>undefined\<close> for an absent property.\<close>

datatype jsvalue =
    JUndefined
  | JNull
  | JBool bool
  | JNum jsnum
  | JStr jsstring
  | JArr "jsvalue list"
  | JObj "(jsstring \<times> jsvalue) list"

section \<open>errors.ts\<close>

datatype ErrorCode =
    OK
  | NOT_INITIALIZED
  | ALREADY_INITIALIZED
  | INVALID_CONFIG
  | NOT_CONNECTED
  | ALREADY_CONNECTED
  | CONNECTION_FAILED
  | CONNECTION_TIMEOUT
  | INVALID_SIGNAL
  | SIGNAL_TOO_LARGE
  | SEND_FAILED
  | INVALID_PARAMETER
  | TERMINAL_NOT_FOUND
  | INTERNAL_ERROR

text \<open>The reverse mapping \<open>ErrorCode[code]\<close> of the enum.\<close>

fun ErrorCode_name :: "ErrorCode \<Rightarrow> jsstring" where
  "ErrorCode_name OK = js ''OK''"
| "ErrorCode_name NOT_INITIALIZED = js ''NOT_INITIALIZED''"
| "ErrorCode_name ALREADY_INITIALIZED = js ''ALREADY_INITIALIZED''"
| "ErrorCode_name INVALID_CONFIG = js ''INVALID_CONFIG''"
| "ErrorCode_name NOT_CONNECTED = js ''NOT_CONNECTED''"
| "ErrorCode_name ALREADY_CONNECTED = js ''ALREADY_CONNECTED''"
| "ErrorCode_name CONNECTION_FAILED = js ''CONNECTION_FAILED''"
| "ErrorCode_name CONNECTION_TIMEOUT = js ''CONNECTION_TIMEOUT''"
| "ErrorCode_name INVALID_SIGNAL = js ''INVALID_SIGNAL''"
| "ErrorCode_name SIGNAL_TOO_LARGE = js ''SIGNAL_TOO_LARGE''"
| "ErrorCode_name SEND_FAILED = js ''SEND_FAILED''"
| "ErrorCode_name INVALID_PARAMETER = js ''INVALID_PARAMETER''"
| "ErrorCode_name TERMINAL_NOT_FOUND = js ''TERMINAL_NOT_FOUND''"
| "ErrorCode_name INTERNAL_ERROR = js ''INTERNAL_ERROR''"

text \<open>
  What the code throws: a \<open>StreamIndError\<close> with its code and message, a plain
  \<open>Error\<close> (from a rejected send), or the runtime's \<open>TypeError\<close> and
  \<open>SyntaxError\<close>.
\<close>

datatype exn =
    StreamIndError ErrorCode jsstring
  | Error jsstring
  | TypeError
  | SyntaxError

text \<open>
  The constructor of \<open>StreamIndError\<close>: \<open>super(message || ErrorCode[code])\<close>. An absent
  or empty message is falsy.
\<close>

definition new_StreamIndError :: "ErrorCode \<Rightarrow> jsstring option \<Rightarrow> exn" where
  "new_StreamIndError code message =
     StreamIndError code
       (case message of
          None \<Rightarrow> ErrorCode_name code
        | Some m \<Rightarrow> if m = [] then ErrorCode_name code else m)"

text \<open>
  \<open>error.message\<close> of a caught value. The wording of the runtime's own errors is not
  modelled: they read as their names.
\<close>

fun exn_message :: "exn \<Rightarrow> jsstring" where
  "exn_message (StreamIndError c m) = m"
| "exn_message (Error m) = m"
| "exn_message TypeError = js ''TypeError''"
| "exn_message SyntaxError = js ''SyntaxError''"

section \<open>models.ts: configuration\<close>

text \<open>
  The interface \<open>Config\<close>: six required strings and nine optional tunables. An
  optional field that is absent (\<open>undefined\<close> or \<open>null\<close>) is \<open>None\<close>.
\<close>

record Config =
  deviceId :: jsstring
  deviceType :: jsstring
  endpoint :: jsstring
  tenantId :: jsstring
  productId :: jsstring
  productKey :: jsstring
  enableDirectiveReceiving :: "bool option"
  connectionTimeoutMs :: "jsnum option"
  heartbeatIntervalMs :: "jsnum option"
  maxMessageSize :: "jsnum option"
  maxReconnectAttempts :: "jsnum option"
  baseReconnectIntervalMs :: "jsnum option"
  maxReconnectIntervalMs :: "jsnum option"
  backoffFactor :: "jsnum option"
  jitterFactor :: "jsnum option"

text \<open>\<open>Required<Config>\<close>: the same fields, all present (names primed).\<close>

record RequiredConfig =
  deviceId' :: jsstring
  deviceType' :: jsstring
  endpoint' :: jsstring
  tenantId' :: jsstring
  productId' :: jsstring
  productKey' :: jsstring
  enableDirectiveReceiving' :: bool
  connectionTimeoutMs' :: jsnum
  heartbeatIntervalMs' :: jsnum
  maxMessageSize' :: jsnum
  maxReconnectAttempts' :: jsnum
  baseReconnectIntervalMs' :: jsnum
  maxReconnectIntervalMs' :: jsnum
  backoffFactor' :: jsnum
  jitterFactor' :: jsnum

text \<open>
  The operator \<open>a ?? b\<close>, and the defaults. The literal \<open>0.1\<close> denotes the double
  nearest to one tenth.
\<close>

definition nullish :: "'a option \<Rightarrow> 'a \<Rightarrow> 'a" where
  "nullish a b = (case a of None \<Rightarrow> b | Some v \<Rightarrow> v)"

definition getConfigWithDefaults :: "Config \<Rightarrow> RequiredConfig" where
  "getConfigWithDefaults config =
     \<lparr> deviceId' = deviceId config,
       deviceType' = deviceType config,
       endpoint' = endpoint config,
       tenantId' = tenantId config,
       productId' = productId config,
       productKey' = productKey config,
       enableDirectiveReceiving' = nullish (enableDirectiveReceiving config) True,
       connectionTimeoutMs' = nullish (connectionTimeoutMs config) (Fin 10000),
       heartbeatIntervalMs' = nullish (heartbeatIntervalMs config) (Fin 5000),
       maxMessageSize' = nullish (maxMessageSize config) (Fin (10 * 1024 * 1024)),
       maxReconnectAttempts' = nullish (maxReconnectAttempts config) (Fin (- 1)),
       baseReconnectIntervalMs' = nullish (baseReconnectIntervalMs config) (Fin 1000),
       maxReconnectIntervalMs' = nullish (maxReconnectIntervalMs config) (Fin 60000),
       backoffFactor' = nullish (backoffFactor config) (Fin 2.0),
       jitterFactor' = nullish (jitterFactor config) (round_double 0.1) \<rparr>"

section \<open>transport.ts: the state of a WebSocketTransport\<close>

text \<open>
  The underlying connection is the \<open>ws\<close> socket object. The model records what has
  been handed to its \<open>send\<close>, in order: that is every write attempted on it.
\<close>

datatype wsframe = TextFrame jsstring | BinaryFrame Buffer

record WebSocket =
  handed :: "wsframe list"

text \<open>
  A callback slot holds a function. It is either one the caller supplied (identified by a
  number) or the closure that \<open>SDK.registerTerminal\<close> builds, which forwards to the
  SDK's global callback with the terminal id.
\<close>

datatype callback = UserFunction nat | ForwardToGlobal jsstring

text \<open>An invocation of the error callback: \<open>this.onError(code, message)\<close>.\<close>

datatype invocation = OnError callback ErrorCode jsstring

datatype Timeout = Timeout jsnum

record Stats =
  signalsSent :: nat
  audioSent :: nat
  directivesReceived :: nat
  audioReceived :: nat
  errors :: nat

record WebSocketTransport =
  config :: RequiredConfig
  ws :: "WebSocket option"
  connected :: bool
  reconnectAttempts :: nat
  lastActivity :: int
  shouldReconnect :: bool
  heartbeatTimer :: "Timeout option"
  reconnectTimer :: "Timeout option"
  connectTime :: int
  onConnected :: "callback option"
  onDirective :: "callback option"
  onAudioData :: "callback option"
  onError :: "callback option"
  onClose :: "callback option"
  stats :: Stats

text \<open>The field initialisers and the constructor.\<close>

definition new_WebSocketTransport :: "Config \<Rightarrow> WebSocketTransport" where
  "new_WebSocketTransport cfg =
     \<lparr> config = getConfigWithDefaults cfg,
       ws = None,
       connected = False,
       reconnectAttempts = 0,
       lastActivity = 0,
       shouldReconnect = True,
       heartbeatTimer = None,
       reconnectTimer = None,
       connectTime = 0,
       onConnected = None,
       onDirective = None,
       onAudioData = None,
       onError = None,
       onClose = None,
       stats = \<lparr> signalsSent = 0, audioSent = 0, directivesReceived = 0,
                 audioReceived = 0, errors = 0 \<rparr> \<rparr>"

definition setConnectionCallback :: "callback \<Rightarrow> WebSocketTransport \<Rightarrow> WebSocketTransport" where
  "setConnectionCallback cb t = t\<lparr>onConnected := Some cb\<rparr>"

definition setDirectiveCallback :: "callback \<Rightarrow> WebSocketTransport \<Rightarrow> WebSocketTransport" where
  "setDirectiveCallback cb t = t\<lparr>onDirective := Some cb\<rparr>"

definition setErrorCallback :: "callback \<Rightarrow> WebSocketTransport \<Rightarrow> WebSocketTransport" where
  "setErrorCallback cb t = t\<lparr>onError := Some cb\<rparr>"

definition setCloseCallback :: "callback \<Rightarrow> WebSocketTransport \<Rightarrow> WebSocketTransport" where
  "setCloseCallback cb t = t\<lparr>onClose := Some cb\<rparr>"

section \<open>transport.ts: sending binary data\<close>

text \<open>
  \<open>String.prototype.toUpperCase\<close>. On a string of ASCII code units it maps \<open>a\<close>..\<open>z\<close>
  to \<open>A\<close>..\<open>Z\<close> and leaves the rest. On any other string it applies the runtime's
  Unicode case tables, which are not part of the repository: they are the parameter
  \<open>unicodeUpper\<close>.
\<close>

definition asciiUpper :: "16 word \<Rightarrow> 16 word" where
  "asciiUpper c = (if 97 \<le> c \<and> c \<le> 122 then c - 32 else c)"

definition toUpperCase :: "(jsstring \<Rightarrow> jsstring) \<Rightarrow> jsstring \<Rightarrow> jsstring" where
  "toUpperCase unicodeUpper s =
     (if list_all (\<lambda>c. c < 128) s then map asciiUpper s else unicodeUpper s)"

text \<open>
  \<open>buf.write(str, 0, 'ascii')\<close>: each code unit is stored as its low byte, from offset
  0, as far as the buffer reaches; the rest of the buffer is kept.
\<close>

definition write_ascii :: "Buffer \<Rightarrow> jsstring \<Rightarrow> Buffer" where
  "write_ascii buf str =
     map ucast (take (length buf) str) @ drop (length str) buf"

text \<open>
  Lines 301 to 334 of \<open>sendBinaryData\<close>: the array \<open>protocolData\<close>, or the error thrown
  while building it. \<open>rnd i\<close> is the result of the \<open>i\<close>-th call of \<open>Math.random()\<close>.
\<close>

definition protocolData ::
  "(jsstring \<Rightarrow> jsstring) \<Rightarrow> (nat \<Rightarrow> real) \<Rightarrow> Buffer \<Rightarrow> jsstring \<Rightarrow> exn + Buffer" where
  "protocolData unicodeUpper rnd data dataType =
     (let dataLen = length data in
      if dataLen > 65535
      then Inl (new_StreamIndError SIGNAL_TOO_LARGE (Some (js ''Binary data exceeds 65535 bytes'')))
      else
        let dataTypeStr = take 7 (toUpperCase unicodeUpper dataType);
            dataTypeBytes = write_ascii (replicate 7 0) dataTypeStr;
            maskKey = map (\<lambda>i. of_int \<lfloor>rnd i * 256\<rfloor>) [0..<4]
        in Inr ([0x82, of_nat (drop_bit 8 dataLen AND 0xFF), of_nat (dataLen AND 0xFF)]
                @ map (\<lambda>i. dataTypeBytes ! i) [0..<7]
                @ maskKey
                @ map (\<lambda>i. data ! i XOR maskKey ! (i mod 4)) [0..<length data]))"

text \<open>
  The private \<open>sendBinary\<close>. \<open>outcome\<close> is what the socket reports to the callback of
  \<open>ws.send\<close>: \<open>None\<close> for success, \<open>Some m\<close> for an error with message \<open>m\<close>.
\<close>

definition sendBinary ::
  "jsstring option \<Rightarrow> WebSocketTransport \<Rightarrow> Buffer \<Rightarrow> (exn + unit) \<times> WebSocketTransport" where
  "sendBinary outcome t d =
     (case ws t of
        None \<Rightarrow> (Inl (Error (js ''Not connected'')), t)
      | Some sock \<Rightarrow>
          if \<not> connected t then (Inl (Error (js ''Not connected'')), t)
          else
            let t' = t\<lparr>ws := Some (sock\<lparr>handed := handed sock @ [BinaryFrame d]\<rparr>)\<rparr>
            in (case outcome of None \<Rightarrow> (Inr (), t') | Some m \<Rightarrow> (Inl (Error m), t')))"

text \<open>
  \<open>sendBinaryData\<close>. The result is what the promise settles to, the transport
  afterwards, and the callbacks invoked. Everything from line 299 on is inside the
  \<open>try\<close>, so whatever is thrown there reaches the \<open>catch\<close> of line 342.
\<close>

definition sendBinaryData ::
  "(jsstring \<Rightarrow> jsstring) \<Rightarrow> (nat \<Rightarrow> real) \<Rightarrow> int \<Rightarrow> jsstring option \<Rightarrow>
   WebSocketTransport \<Rightarrow> Buffer \<Rightarrow> jsstring \<Rightarrow>
   (exn + unit) \<times> WebSocketTransport \<times> invocation list" where
  "sendBinaryData unicodeUpper rnd now outcome t data dataType =
     (if \<not> connected t then (Inl (new_StreamIndError NOT_CONNECTED None), t, [])
      else
        (case (case protocolData unicodeUpper rnd data dataType of
                 Inl e \<Rightarrow> (Inl e, t)
               | Inr frame \<Rightarrow>
                   (case sendBinary outcome t frame of
                      (Inl e, t1) \<Rightarrow> (Inl e, t1)
                    | (Inr u, t1) \<Rightarrow>
                        (Inr u, t1\<lparr>lastActivity := now,
                                   stats := (stats t1)\<lparr>audioSent := audioSent (stats t1) + 1\<rparr>\<rparr>)))
         of
           (Inr u, t2) \<Rightarrow> (Inr u, t2, [])
         | (Inl error, t2) \<Rightarrow>
             (Inl (new_StreamIndError SEND_FAILED (Some (exn_message error))),
              t2\<lparr>stats := (stats t2)\<lparr>errors := errors (stats t2) + 1\<rparr>\<rparr>,
              (case onError t2 of
                 None \<Rightarrow> []
               | Some cb \<Rightarrow> [OnError cb SEND_FAILED (exn_message error)]))))"

text \<open>
  The decoding that the wire format implies (the repository has no decoder): the mask key
  is read from bytes 10 to 13 of the frame, and byte \<open>i\<close> of the payload section, which
  starts at byte 14, is XOR-ed with \<open>maskKey[i mod 4]\<close>.
\<close>

definition xor_decode :: "Buffer \<Rightarrow> Buffer" where
  "xor_decode frame =
     (let maskKey = take 4 (drop 10 frame); payload = drop 14 frame
      in map (\<lambda>i. payload ! i XOR maskKey ! (i mod 4)) [0..<length payload])"

section \<open>transport.ts: sending a signal\<close>

record SignalSource =
  receptorId :: jsstring
  receptorTopic :: jsstring
  generatedTime :: jsstring

text \<open>A \<open>Signal\<close>; \<open>payload\<close> is the \<open>data\<close> object of its \<open>Payload\<close>.\<close>

record Signal =
  uuid :: jsstring
  type :: jsstring
  timestamp :: jsstring
  source :: SignalSource
  payload :: "(jsstring \<times> jsvalue) list"

text \<open>
  \<open>Signal.toJSON\<close>. \<open>JSON.stringify\<close> belongs to the runtime: it is the parameter
  \<open>stringify\<close>.
\<close>

definition Signal_toJSON :: "(jsvalue \<Rightarrow> jsstring) \<Rightarrow> Signal \<Rightarrow> jsstring" where
  "Signal_toJSON stringify s =
     stringify (JObj
       [(js ''uuid'', JStr (uuid s)),
        (js ''type'', JStr (type s)),
        (js ''timestamp'', JStr (timestamp s)),
        (js ''source'', JObj
           [(js ''receptorId'', JStr (receptorId (source s))),
            (js ''receptorTopic'', JStr (receptorTopic (source s))),
            (js ''generatedTime'', JStr (generatedTime (source s)))]),
        (js ''payload'', JObj (payload s))])"

text \<open>
  \<open>Buffer.byteLength(str, 'utf8')\<close>: one byte for a code unit below \<open>0x80\<close>, two below
  \<open>0x800\<close>, four for a surrogate pair, three otherwise (a lone surrogate is encoded as
  the replacement character).
\<close>

fun byteLength_utf8 :: "jsstring \<Rightarrow> nat" where
  "byteLength_utf8 [] = 0"
| "byteLength_utf8 [c] = (if c < 0x80 then 1 else if c < 0x800 then 2 else 3)"
| "byteLength_utf8 (c # d # cs) =
     (if c < 0x80 then 1 + byteLength_utf8 (d # cs)
      else if c < 0x800 then 2 + byteLength_utf8 (d # cs)
      else if 0xD800 \<le> c \<and> c \<le> 0xDBFF \<and> 0xDC00 \<le> d \<and> d \<le> 0xDFFF
      then 4 + byteLength_utf8 cs
      else 3 + byteLength_utf8 (d # cs))"

text \<open>The private \<open>sendMessage\<close>, with the socket's report \<open>outcome\<close> as in \<open>sendBinary\<close>.\<close>

definition sendMessage ::
  "jsstring option \<Rightarrow> WebSocketTransport \<Rightarrow> jsstring \<Rightarrow> (exn + unit) \<times> WebSocketTransport" where
  "sendMessage outcome t message =
     (case ws t of
        None \<Rightarrow> (Inl (Error (js ''Not connected'')), t)
      | Some sock \<Rightarrow>
          if \<not> connected t then (Inl (Error (js ''Not connected'')), t)
          else
            let t' = t\<lparr>ws := Some (sock\<lparr>handed := handed sock @ [TextFrame message]\<rparr>)\<rparr>
            in (case outcome of None \<Rightarrow> (Inr (), t') | Some m \<Rightarrow> (Inl (Error m), t')))"

text \<open>
  Lines 247 to 255 of \<open>sendSignal\<close>: the source fields that are empty are filled from
  the configuration and the signal's timestamp, in the signal itself.
\<close>

definition autoFillSource :: "WebSocketTransport \<Rightarrow> Signal \<Rightarrow> Signal" where
  "autoFillSource t signal =
     (let s1 = (if receptorId (source signal) = []
                then signal\<lparr>source := (source signal)\<lparr>receptorId := deviceId' (config t)\<rparr>\<rparr>
                else signal);
          s2 = (if receptorTopic (source s1) = []
                then s1\<lparr>source := (source s1)\<lparr>receptorTopic := deviceType' (config t)\<rparr>\<rparr>
                else s1)
      in if generatedTime (source s2) = []
         then s2\<lparr>source := (source s2)\<lparr>generatedTime := timestamp s2\<rparr>\<rparr>
         else s2)"

text \<open>
  \<open>sendSignal\<close>. It returns what the promise settles to, the transport afterwards, the
  signal afterwards and the callbacks invoked. The size check of line 260 is before the
  \<open>try\<close>.
\<close>

definition sendSignal ::
  "(jsvalue \<Rightarrow> jsstring) \<Rightarrow> int \<Rightarrow> jsstring option \<Rightarrow> WebSocketTransport \<Rightarrow> Signal \<Rightarrow>
   (exn + unit) \<times> WebSocketTransport \<times> Signal \<times> invocation list" where
  "sendSignal stringify now outcome t signal =
     (if \<not> connected t then (Inl (new_StreamIndError NOT_CONNECTED None), t, signal, [])
      else
        let signal' = autoFillSource t signal;
            jsonStr = Signal_toJSON stringify signal'
        in if js_gt (Fin (real (byteLength_utf8 jsonStr))) (maxMessageSize' (config t))
           then (Inl (new_StreamIndError SIGNAL_TOO_LARGE None), t, signal', [])
           else
             (case sendMessage outcome t jsonStr of
                (Inr u, t1) \<Rightarrow>
                  (Inr u,
                   t1\<lparr>lastActivity := now,
                      stats := (stats t1)\<lparr>signalsSent := signalsSent (stats t1) + 1\<rparr>\<rparr>,
                   signal', [])
              | (Inl error, t1) \<Rightarrow>
                  (Inl (new_StreamIndError SEND_FAILED (Some (exn_message error))),
                   t1\<lparr>stats := (stats t1)\<lparr>errors := errors (stats t1) + 1\<rparr>\<rparr>,
                   signal',
                   (case onError t1 of
                      None \<Rightarrow> []
                    | Some cb \<Rightarrow> [OnError cb SEND_FAILED (exn_message error)]))))"

section \<open>transport.ts: statistics\<close>

text \<open>The interface \<open>Statistics\<close> (names primed).\<close>

record Statistics =
  signalsSent' :: nat
  audioSent' :: nat
  directivesReceived' :: nat
  audioReceived' :: nat
  errors' :: nat
  connected' :: bool
  uptimeSeconds' :: jsnum
  reconnectAttempts' :: nat

text \<open>
  \<open>getStatistics\<close>, with \<open>now\<close> the value of \<open>Date.now()\<close>. The difference of the two
  times is exact; the division by 1000 rounds.
\<close>

definition getStatistics :: "int \<Rightarrow> WebSocketTransport \<Rightarrow> Statistics" where
  "getStatistics now t =
     (let uptime = (if connected t \<and> connectTime t > 0
                    then round_double (real_of_int (now - connectTime t) / 1000)
                    else Fin 0)
      in \<lparr> signalsSent' = signalsSent (stats t),
           audioSent' = audioSent (stats t),
           directivesReceived' = directivesReceived (stats t),
           audioReceived' = audioReceived (stats t),
           errors' = errors (stats t),
           connected' = connected t,
           uptimeSeconds' = uptime,
           reconnectAttempts' = reconnectAttempts t \<rparr>)"

definition resetStatistics :: "WebSocketTransport \<Rightarrow> WebSocketTransport" where
  "resetStatistics t =
     t\<lparr>stats := \<lparr> signalsSent = 0, audioSent = 0, directivesReceived = 0,
                  audioReceived = 0, errors = 0 \<rparr>\<rparr>"

section \<open>transport.ts: the backoff delay\<close>

text \<open>
  Lines 559 and 560 of \<open>calculateBackoffDelay\<close>: the delay before the jitter is added.
  \<open>Math.pow\<close> is approximated by the runtime as it sees fit: it is the parameter \<open>pow\<close>,
  applied to the factor and the attempt counter.
\<close>

definition cappedDelay :: "(jsnum \<Rightarrow> nat \<Rightarrow> jsnum) \<Rightarrow> WebSocketTransport \<Rightarrow> jsnum" where
  "cappedDelay pow t =
     (let base = baseReconnectIntervalMs' (config t);
          maxDelay = maxReconnectIntervalMs' (config t);
          factor = backoffFactor' (config t);
          delay = js_mul base (pow factor (reconnectAttempts t))
      in Math_min delay maxDelay)"

text \<open>
  \<open>calculateBackoffDelay\<close>; \<open>r\<close> is the value of the double that \<open>Math.random()\<close>
  returns.
\<close>

definition calculateBackoffDelay ::
  "(jsnum \<Rightarrow> nat \<Rightarrow> jsnum) \<Rightarrow> real \<Rightarrow> WebSocketTransport \<Rightarrow> jsnum" where
  "calculateBackoffDelay pow r t =
     (let jitter = jitterFactor' (config t);
          delay = cappedDelay pow t;
          jitterAmount = js_mul (js_mul delay jitter) (js_sub (js_mul (Fin r) (Fin 2)) (Fin 1))
      in Math_max (Fin 0) (js_add delay jitterAmount))"

section \<open>sdk.ts: the terminal registry\<close>

record Terminal =
  terminal_config :: Config
  terminal_transport :: WebSocketTransport

text \<open>A global callback is a function the caller supplied, identified by a number.\<close>

record SDK =
  terminals :: "jsstring \<rightharpoonup> Terminal"
  lastError :: jsstring
  globalConnectionCallback :: "nat option"
  globalDirectiveCallback :: "nat option"
  globalErrorCallback :: "nat option"
  globalCloseCallback :: "nat option"

definition registerTerminal :: "jsstring \<Rightarrow> Config \<Rightarrow> SDK \<Rightarrow> ErrorCode \<times> SDK" where
  "registerTerminal terminalId cfg sdk =
     (if terminalId \<in> dom (terminals sdk)
      then (ALREADY_INITIALIZED,
            sdk\<lparr>lastError := js ''Terminal '' @ terminalId @ js '' already registered''\<rparr>)
      else
        let t0 = new_WebSocketTransport cfg;
            t1 = (if globalConnectionCallback sdk \<noteq> None
                  then setConnectionCallback (ForwardToGlobal terminalId) t0 else t0);
            t2 = (if globalDirectiveCallback sdk \<noteq> None
                  then setDirectiveCallback (ForwardToGlobal terminalId) t1 else t1);
            t3 = (if globalErrorCallback sdk \<noteq> None
                  then setErrorCallback (ForwardToGlobal terminalId) t2 else t2);
            t4 = (if globalCloseCallback sdk \<noteq> None
                  then setCloseCallback (ForwardToGlobal terminalId) t3 else t3)
        in (OK,
            sdk\<lparr>terminals := (terminals sdk)
                   (terminalId \<mapsto> \<lparr> terminal_config = cfg, terminal_transport = t4 \<rparr>)\<rparr>))"

section \<open>models.ts: directives\<close>

text \<open>
  A \<open>Directive\<close>. The fields hold whatever the decoded JSON held: \<open>data.id || ''\<close> is
  not checked to be a string, and \<open>parameters\<close> is any value but \<open>undefined\<close>.
\<close>

record Directive =
  directive_id :: jsvalue
  directive_name :: jsvalue
  directive_timestamp :: jsstring
  parameters :: jsvalue


definition isDigit :: "16 word \<Rightarrow> bool" where
  "isDigit c = (48 \<le> c \<and> c \<le> 57)"

definition digitsValue :: "jsstring \<Rightarrow> nat" where
  "digitsValue z = foldl (\<lambda>a c. 10 * a + unat (c - 48)) 0 z"



text \<open>
  The property read \<open>this.parameters[key]\<close> of the accessors, for any key. What it finds
  is a decoded value (\<open>undefined\<close> when there is none), a built-in method that the
  receiver inherits, or, for the key \<open>__proto__\<close>, the receiver's prototype itself.
\<close>

datatype prototype =
    ObjectPrototype
  | ArrayPrototype
  | StringPrototype
  | NumberPrototype
  | BooleanPrototype

datatype property = Value jsvalue | Method jsstring | Proto prototype

text \<open>
  Which methods the prototypes have depends on the version of the runtime: \<open>builtins\<close>
  is a parameter, giving for a prototype and a key the name of the function that the
  prototype itself holds under that key, if any. Every prototype but
  \<open>Object.prototype\<close> inherits from \<open>Object.prototype\<close>.
\<close>

type_synonym builtins = "prototype \<Rightarrow> jsstring \<Rightarrow> jsstring option"

definition inherited :: "builtins \<Rightarrow> prototype \<Rightarrow> jsstring \<Rightarrow> property" where
  "inherited tbl P key =
     (if key = js ''__proto__'' then Proto P
      else case tbl P key of
             Some f \<Rightarrow> Method f
           | None \<Rightarrow>
               (case tbl ObjectPrototype key of
                  Some f \<Rightarrow> Method f
                | None \<Rightarrow> Value JUndefined))"

text \<open>
  A property key that is an array index: the decimal digits of a number, with no
  leading zero.
\<close>

definition arrayIndex :: "jsstring \<Rightarrow> nat option" where
  "arrayIndex key =
     (if key \<noteq> [] \<and> list_all isDigit key \<and> (key = [48] \<or> hd key \<noteq> 48)
      then Some (digitsValue key) else None)"

text \<open>
  Reading a property of \<open>null\<close> or \<open>undefined\<close> throws. An object has its own
  properties, an array and a string have \<open>length\<close> and their indices; the rest is
  inherited.
\<close>

fun getProperty :: "builtins \<Rightarrow> jsvalue \<Rightarrow> jsstring \<Rightarrow> exn + property" where
  "getProperty tbl JUndefined key = Inl TypeError"
| "getProperty tbl JNull key = Inl TypeError"
| "getProperty tbl (JBool b) key = Inr (inherited tbl BooleanPrototype key)"
| "getProperty tbl (JNum x) key = Inr (inherited tbl NumberPrototype key)"
| "getProperty tbl (JStr s) key =
     (if key = js ''length'' then Inr (Value (JNum (Fin (real (length s)))))
      else case arrayIndex key of
             None \<Rightarrow> Inr (inherited tbl StringPrototype key)
           | Some i \<Rightarrow>
               if i < length s then Inr (Value (JStr [s ! i]))
               else Inr (inherited tbl StringPrototype key))"
| "getProperty tbl (JArr xs) key =
     (if key = js ''length'' then Inr (Value (JNum (Fin (real (length xs)))))
      else case arrayIndex key of
             None \<Rightarrow> Inr (inherited tbl ArrayPrototype key)
           | Some i \<Rightarrow>
               if i < length xs then Inr (Value (xs ! i))
               else Inr (inherited tbl ArrayPrototype key))"
| "getProperty tbl (JObj kvs) key =
     (case map_of kvs key of
        None \<Rightarrow> Inr (inherited tbl ObjectPrototype key)
      | Some v \<Rightarrow> Inr (Value v))"

text \<open>
  \<open>String(value)\<close>. A number is printed by the runtime (\<open>num2str\<close>, a parameter). A plain
  object prints as \<open>[object Object]\<close>, unless it has a property \<open>toString\<close> of its own:
  a decoded value is never callable, and the conversion throws. An array prints its
  elements joined by commas, \<open>null\<close> and \<open>undefined\<close> elements as the empty string.
\<close>

fun ToString :: "(jsnum \<Rightarrow> jsstring) \<Rightarrow> jsvalue \<Rightarrow> exn + jsstring"
  and join :: "(jsnum \<Rightarrow> jsstring) \<Rightarrow> jsvalue list \<Rightarrow> exn + jsstring" where
  "ToString num2str JUndefined = Inr (js ''undefined'')"
| "ToString num2str JNull = Inr (js ''null'')"
| "ToString num2str (JBool b) = Inr (if b then js ''true'' else js ''false'')"
| "ToString num2str (JNum x) = Inr (num2str x)"
| "ToString num2str (JStr s) = Inr s"
| "ToString num2str (JArr xs) = join num2str xs"
| "ToString num2str (JObj kvs) =
     (if map_of kvs (js ''toString'') \<noteq> None then Inl TypeError
      else Inr (js ''[object Object]''))"
| "join num2str [] = Inr []"
| "join num2str (x # xs) =
     (case (if x = JUndefined \<or> x = JNull then Inr [] else ToString num2str x) of
        Inl e \<Rightarrow> Inl e
      | Inr s \<Rightarrow>
          if xs = [] then Inr s
          else (case join num2str xs of
                  Inl e \<Rightarrow> Inl e
                | Inr r \<Rightarrow> Inr (s @ js '','' @ r)))"

text \<open>
  \<open>String\<close> of what a property read finds. A built-in function prints as its native
  source text; the prototypes print as the empty array, the empty string, the number 0,
  the boolean false and a plain object do.
\<close>

fun ToString_property :: "(jsnum \<Rightarrow> jsstring) \<Rightarrow> property \<Rightarrow> exn + jsstring" where
  "ToString_property num2str (Value v) = ToString num2str v"
| "ToString_property num2str (Method f) = Inr (js ''function '' @ f @ js ''() { [native code] }'')"
| "ToString_property num2str (Proto ObjectPrototype) = Inr (js ''[object Object]'')"
| "ToString_property num2str (Proto ArrayPrototype) = Inr []"
| "ToString_property num2str (Proto StringPrototype) = Inr []"
| "ToString_property num2str (Proto NumberPrototype) = Inr (js ''0'')"
| "ToString_property num2str (Proto BooleanPrototype) = Inr (js ''false'')"

text \<open>
  \<open>parseInt(s, 10)\<close>: leading white space is skipped, one sign is read, then the
  longest run of decimal digits. With no digit the result is \<open>NaN\<close>; otherwise it is the
  double nearest to the signed value of the digits.
\<close>

definition isStrWhiteSpaceChar :: "16 word \<Rightarrow> bool" where
  "isStrWhiteSpaceChar c =
     (c \<in> set [0x09, 0x0A, 0x0B, 0x0C, 0x0D, 0x20, 0xA0, 0x1680,
               0x2028, 0x2029, 0x202F, 0x205F, 0x3000, 0xFEFF]
      \<or> (0x2000 \<le> c \<and> c \<le> 0x200A))"

definition parseInt10 :: "jsstring \<Rightarrow> jsnum" where
  "parseInt10 s =
     (let S = dropWhile isStrWhiteSpaceChar s;
          sign = (if S \<noteq> [] \<and> hd S = 0x2D then - 1 else 1);
          S' = (if S \<noteq> [] \<and> (hd S = 0x2B \<or> hd S = 0x2D) then tl S else S);
          Z = takeWhile isDigit S'
      in if Z = [] then NaN else round_double (sign * real (digitsValue Z)))"

definition getIntParameter ::
  "builtins \<Rightarrow> (jsnum \<Rightarrow> jsstring) \<Rightarrow> Directive \<Rightarrow> jsstring \<Rightarrow> jsnum \<Rightarrow> exn + jsnum" where
  "getIntParameter tbl num2str d key defaultValue =
     (case getProperty tbl (parameters d) key of
        Inl e \<Rightarrow> Inl e
      | Inr v \<Rightarrow>
          (case v of
             Value (JNum x) \<Rightarrow> Inr (Math_floor x)
           | _ \<Rightarrow>
               (case ToString_property num2str v of
                  Inl e \<Rightarrow> Inl e
                | Inr s \<Rightarrow>
                    let num = parseInt10 s
                    in Inr (if num = NaN then defaultValue else num))))"


section \<open>Example states\<close>

text \<open>A configuration that leaves every optional field absent.\<close>

definition exampleConfig :: Config where
  "exampleConfig =
     \<lparr> deviceId = js ''device-1'', deviceType = js ''sensor'',
       endpoint = js ''wss://platform.example/ws'', tenantId = js ''tenant'',
       productId = js ''product'', productKey = js ''key'',
       enableDirectiveReceiving = None, connectionTimeoutMs = None,
       heartbeatIntervalMs = None, maxMessageSize = None, maxReconnectAttempts = None,
       baseReconnectIntervalMs = None, maxReconnectIntervalMs = None,
       backoffFactor = None, jitterFactor = None \<rparr>"

text \<open>
  A transport built from it, as the \<open>open\<close> handler of \<open>connect\<close> leaves it at time
  1000, on a socket to which nothing has been handed yet.
\<close>

definition openTransport :: WebSocketTransport where
  "openTransport =
     (new_WebSocketTransport exampleConfig)
       \<lparr> ws := Some \<lparr> handed = [] \<rparr>, connected := True,
         lastActivity := 1000, connectTime := 1000 \<rparr>"

text \<open>The same transport under a configuration that limits a message to 10 bytes.\<close>

definition smallLimitTransport :: WebSocketTransport where
  "smallLimitTransport =
     (new_WebSocketTransport (exampleConfig\<lparr>maxMessageSize := Some (Fin 10)\<rparr>))
       \<lparr> ws := Some \<lparr> handed = [] \<rparr>, connected := True,
         lastActivity := 1000, connectTime := 1000 \<rparr>"

text \<open>
  A transport whose configuration supplies a base interval of 0, after \<open>n\<close> reconnect
  attempts have failed.
\<close>

definition zeroBaseTransport :: "nat \<Rightarrow> WebSocketTransport" where
  "zeroBaseTransport n =
     (new_WebSocketTransport (exampleConfig\<lparr>baseReconnectIntervalMs := Some (Fin 0)\<rparr>))
       \<lparr> reconnectAttempts := n \<rparr>"

text \<open>
  A \<open>Math.pow\<close> that rounds the exact power of a finite base. Where the power is a
  double, or overflows, every implementation agrees with it.
\<close>

fun roundedPow :: "jsnum \<Rightarrow> nat \<Rightarrow> jsnum" where
  "roundedPow (Fin x) n = round_double (x ^ n)"
| "roundedPow PosInf n = (if n = 0 then Fin 1 else PosInf)"
| "roundedPow NegInf n = (if n = 0 then Fin 1 else if even n then PosInf else NegInf)"
| "roundedPow NaN n = (if n = 0 then Fin 1 else NaN)"

text \<open>A signal as its constructor leaves it, with one payload entry.\<close>

definition exampleSignal :: Signal where
  "exampleSignal =
     \<lparr> uuid = js ''sig_1000_1'', type = js ''sensor.reading'',
       timestamp = js ''2024-01-01T00:00:00.000Z'',
       source = \<lparr> receptorId = [], receptorTopic = [],
                  generatedTime = js ''2024-01-01T00:00:00.000Z'' \<rparr>,
       payload = [(js ''text'', JStr (js ''hello''))] \<rparr>"

text \<open>An SDK as its field initialisers leave it.\<close>

definition emptySDK :: SDK where
  "emptySDK =
     \<lparr> terminals = Map.empty, lastError = [],
       globalConnectionCallback = None, globalDirectiveCallback = None,
       globalErrorCallback = None, globalCloseCallback = None \<rparr>"








section \<open>Properties as the specification states them\<close>

text \<open>
  The range the specification gives for the jittered delay, over the real values of the
  configuration: the two ends \<open>base * factor^attempts * (1 \<plusminus> jitterFactor)\<close>, each
  clamped to \<open>[0, maxDelay * (1 + jitterFactor)]\<close>.
\<close>

definition clamp :: "real \<Rightarrow> real \<Rightarrow> real \<Rightarrow> real" where
  "clamp lo hi x = max lo (min hi x)"

definition claimedLower :: "real \<Rightarrow> real \<Rightarrow> nat \<Rightarrow> real \<Rightarrow> real \<Rightarrow> real" where
  "claimedLower base factor attempts maxDelay jitter =
     clamp 0 (maxDelay * (1 + jitter)) (base * factor ^ attempts * (1 - jitter))"

definition claimedUpper :: "real \<Rightarrow> real \<Rightarrow> nat \<Rightarrow> real \<Rightarrow> real \<Rightarrow> real" where
  "claimedUpper base factor attempts maxDelay jitter =
     clamp 0 (maxDelay * (1 + jitter)) (base * factor ^ attempts * (1 + jitter))"

text \<open>
  The invariant the specification gives for a resolved configuration: every numeric
  tunable is finite and non-negative, and the backoff factor is at least 1. The second
  predicate says the same of the tunables a \<open>Config\<close> supplies.
\<close>

definition finiteNonNegative :: "jsnum \<Rightarrow> bool" where
  "finiteNonNegative v = (case v of Fin x \<Rightarrow> 0 \<le> x | _ \<Rightarrow> False)"

definition finiteAtLeastOne :: "jsnum \<Rightarrow> bool" where
  "finiteAtLeastOne v = (case v of Fin x \<Rightarrow> 1 \<le> x | _ \<Rightarrow> False)"

definition tunablesInvariant :: "RequiredConfig \<Rightarrow> bool" where
  "tunablesInvariant c =
     (finiteNonNegative (connectionTimeoutMs' c) \<and> finiteNonNegative (heartbeatIntervalMs' c)
      \<and> finiteNonNegative (maxMessageSize' c) \<and> finiteNonNegative (baseReconnectIntervalMs' c)
      \<and> finiteNonNegative (maxReconnectIntervalMs' c) \<and> finiteNonNegative (backoffFactor' c)
      \<and> finiteNonNegative (jitterFactor' c) \<and> finiteAtLeastOne (backoffFactor' c))"

definition absentOr :: "(jsnum \<Rightarrow> bool) \<Rightarrow> jsnum option \<Rightarrow> bool" where
  "absentOr P v = (case v of None \<Rightarrow> True | Some x \<Rightarrow> P x)"

definition suppliedTunablesValid :: "Config \<Rightarrow> bool" where
  "suppliedTunablesValid c =
     (absentOr finiteNonNegative (connectionTimeoutMs c)
      \<and> absentOr finiteNonNegative (heartbeatIntervalMs c)
      \<and> absentOr finiteNonNegative (maxMessageSize c)
      \<and> absentOr finiteNonNegative (baseReconnectIntervalMs c)
      \<and> absentOr finiteNonNegative (maxReconnectIntervalMs c)
      \<and> absentOr finiteAtLeastOne (backoffFactor c)
      \<and> absentOr finiteNonNegative (jitterFactor c))"

section \<open>Rounding to the nearest double\<close>

text \<open>
  Rounding is monotone, odd and idempotent, and it leaves a dyadic number of at most 53
  significant bits as it is; in particular every integer below \<open>2^53\<close> in magnitude.
\<close>

lemma rhe_int [simp]: "round_half_even (of_int n) = n"
  by (simp add: round_half_even_def)

lemma rhe_mono: "x \<le> y \<Longrightarrow> round_half_even x \<le> round_half_even y"
proof -
  assume xy: "x \<le> y"
  have fl: "\<lfloor>x\<rfloor> \<le> \<lfloor>y\<rfloor>" using xy by (rule floor_mono)
  have bx: "round_half_even x \<le> \<lfloor>x\<rfloor> + 1" by (simp add: round_half_even_def Let_def)
  have by1: "\<lfloor>y\<rfloor> \<le> round_half_even y" by (simp add: round_half_even_def Let_def)
  show ?thesis
  proof (cases "\<lfloor>x\<rfloor> = \<lfloor>y\<rfloor>")
    case True
    then show ?thesis using xy by (auto simp: round_half_even_def Let_def)
  next
    case False
    then have "\<lfloor>x\<rfloor> + 1 \<le> \<lfloor>y\<rfloor>" using fl by simp
    then show ?thesis using bx by1 by linarith
  qed
qed

lemma rhe_minus: "round_half_even (- z) = - round_half_even z"
proof (cases "z = of_int \<lfloor>z\<rfloor>")
  case True
  then have "round_half_even (- z) = round_half_even (of_int (- \<lfloor>z\<rfloor>))" by simp
  also have "\<dots> = - \<lfloor>z\<rfloor>" by (rule rhe_int)
  also have "\<dots> = - round_half_even (of_int \<lfloor>z\<rfloor>)" by simp
  finally show ?thesis using True by simp
next
  case False
  then have f: "\<lfloor>- z\<rfloor> = - \<lfloor>z\<rfloor> - 1"
    by (simp add: floor_minus ceiling_altdef)
  have d: "0 < z - of_int \<lfloor>z\<rfloor>" using False
    by (metis diff_gt_0_iff_gt of_int_floor_le order_less_le)
  show ?thesis
    unfolding round_half_even_def Let_def f using d by (auto simp: algebra_simps)
qed

lemma rhe_le: "z \<le> of_int n \<Longrightarrow> round_half_even z \<le> n"
  using rhe_mono[of z "of_int n"] by simp

lemma rhe_ge: "of_int n \<le> z \<Longrightarrow> n \<le> round_half_even z"
  using rhe_mono[of "of_int n" z] by simp

lemma powi_pos [simp]: "0 < (2::real) powi k"
  by (simp add: power_int_def)

lemma exponent_minus [simp]: "exponent (- x) = exponent x"
  by (simp add: exponent_def)

lemma powr_powi: "(2::real) powr (of_int k) = 2 powi k"
  by (simp add: powr_real_of_int' power_int_def)

lemma exponent_eqI:
  assumes "2 powi e \<le> \<bar>x\<bar>" and "\<bar>x\<bar> < 2 powi (e + 1)" and "- 1022 \<le> e"
  shows "exponent x = e"
proof -
  have pos: "0 < \<bar>x\<bar>" using assms(1) powi_pos[of e] by linarith
  have "\<lfloor>log 2 \<bar>x\<bar>\<rfloor> = e"
    using assms(1,2) pos by (simp add: floor_log_eq_powr_iff powr_powi[symmetric])
  then show ?thesis using assms(3) pos by (simp add: exponent_def)
qed

lemma exponent_small:
  assumes "\<bar>x\<bar> < 2 powi (- 1021)"
  shows "exponent x = - 1022"
proof (cases "x = 0")
  case True
  then show ?thesis by (simp add: exponent_def)
next
  case False
  then have pos: "0 < \<bar>x\<bar>" by simp
  have "log 2 \<bar>x\<bar> < of_int (- 1021)"
    using assms pos by (simp add: log_less_iff powr_powi del: of_int_minus)
  then have "\<lfloor>log 2 \<bar>x\<bar>\<rfloor> < - 1021" by (simp add: floor_less_iff del: of_int_minus)
  then show ?thesis using False by (simp add: exponent_def)
qed

lemma exponent_upper:
  assumes "x \<noteq> 0"
  shows "\<bar>x\<bar> < 2 powi (exponent x + 1)"
proof -
  have pos: "0 < \<bar>x\<bar>" using assms by simp
  let ?k = "\<lfloor>log 2 \<bar>x\<bar>\<rfloor>"
  have "\<bar>x\<bar> < 2 powr (of_int (?k + 1))"
    using pos floor_log_eq_powr_iff[of "\<bar>x\<bar>" 2 ?k] by simp
  then have a: "\<bar>x\<bar> < 2 powi (?k + 1)" by (simp only: powr_powi)
  have "?k + 1 \<le> exponent x + 1" using assms by (simp add: exponent_def)
  then have "(2::real) powi (?k + 1) \<le> 2 powi (exponent x + 1)"
    by (intro power_int_increasing) simp_all
  with a show ?thesis by linarith
qed

lemma exponent_lower:
  assumes "- 1022 < exponent x"
  shows "2 powi (exponent x) \<le> \<bar>x\<bar>"
proof -
  have e: "exponent x = \<lfloor>log 2 \<bar>x\<bar>\<rfloor>" using assms by (simp add: exponent_def max_def split: if_splits)
  have nz: "x \<noteq> 0" using assms by (auto simp: exponent_def)
  then have pos: "0 < \<bar>x\<bar>" by simp
  have "2 powr (of_int \<lfloor>log 2 \<bar>x\<bar>\<rfloor>) \<le> \<bar>x\<bar>"
    using pos floor_log_eq_powr_iff[of "\<bar>x\<bar>" 2 "\<lfloor>log 2 \<bar>x\<bar>\<rfloor>"] by simp
  then show ?thesis unfolding e by (simp only: powr_powi)
qed

lemma exponent_ge: "- 1022 \<le> exponent x"
  by (simp add: exponent_def)

lemma exponent_mono:
  assumes "\<bar>x\<bar> \<le> \<bar>y\<bar>" and "x \<noteq> 0"
  shows "exponent x \<le> exponent y"
proof -
  have "log 2 \<bar>x\<bar> \<le> log 2 \<bar>y\<bar>" using assms by simp
  then have "\<lfloor>log 2 \<bar>x\<bar>\<rfloor> \<le> \<lfloor>log 2 \<bar>y\<bar>\<rfloor>" by (rule floor_mono)
  moreover have "y \<noteq> 0" using assms by auto
  ultimately show ?thesis using assms(2) by (simp add: exponent_def)
qed


lemma nearest_zero [simp]: "nearest 0 = 0"
  by (simp add: nearest_def round_half_even_def)

lemma nearest_minus: "nearest (- x) = - nearest x"
  by (simp add: nearest_def Let_def rhe_minus)

lemma powi_split: "(2::real) powi (a + b) = 2 powi a * 2 powi b"
  by (rule power_int_add) simp

lemma powi_53: "(2::real) powi (e + 1) / 2 powi (e - 52) = 2 ^ 53"
proof -
  have "(2::real) powi (e + 1) = 2 powi ((e - 52) + 53)" by (rule arg_cong) simp
  also have "\<dots> = 2 powi (e - 52) * 2 powi 53" by (rule powi_split)
  finally show ?thesis by simp
qed

lemma powi_52: "(2::real) powi e / 2 powi (e - 52) = 2 ^ 52"
proof -
  have "(2::real) powi e = 2 powi ((e - 52) + 52)" by (rule arg_cong) simp
  also have "\<dots> = 2 powi (e - 52) * 2 powi 52" by (rule powi_split)
  finally show ?thesis by simp
qed

lemma scaled_upper:
  assumes "x \<noteq> 0"
  shows "\<bar>x\<bar> / 2 powi (exponent x - 52) < 2 ^ 53"
proof -
  have "\<bar>x\<bar> / 2 powi (exponent x - 52) < 2 powi (exponent x + 1) / 2 powi (exponent x - 52)"
    using exponent_upper[OF assms] by (simp add: divide_strict_right_mono)
  then show ?thesis by (simp only: powi_53)
qed

lemma scaled_lower:
  assumes "- 1022 < exponent x"
  shows "2 ^ 52 \<le> \<bar>x\<bar> / 2 powi (exponent x - 52)"
proof -
  have "2 powi (exponent x) / 2 powi (exponent x - 52) \<le> \<bar>x\<bar> / 2 powi (exponent x - 52)"
    using exponent_lower[OF assms] by (simp add: divide_right_mono)
  then show ?thesis by (simp only: powi_52)
qed

lemma nearest_nonneg: "0 \<le> x \<Longrightarrow> 0 \<le> nearest x"
proof -
  assume "0 \<le> x"
  then have "0 \<le> x / 2 powi (exponent x - 52)" by simp
  then have "0 \<le> round_half_even (x / 2 powi (exponent x - 52))"
    using rhe_ge[of 0] by simp
  then show ?thesis by (simp add: nearest_def Let_def)
qed

lemma nearest_upper:
  assumes "0 < x"
  shows "nearest x \<le> 2 powi (exponent x + 1)"
proof -
  let ?q = "(2::real) powi (exponent x - 52)"
  have "x / ?q \<le> of_int (2 ^ 53)"
    using scaled_upper[of x] assms by simp
  then have "round_half_even (x / ?q) \<le> 2 ^ 53" by (rule rhe_le)
  then have "real_of_int (round_half_even (x / ?q)) \<le> 2 ^ 53"
    by (metis of_int_le_iff of_int_numeral of_int_power)
  then have "real_of_int (round_half_even (x / ?q)) * ?q \<le> 2 ^ 53 * ?q"
    by (simp add: mult_right_mono)
  also have "2 ^ 53 * ?q = 2 powi (exponent x + 1)"
    using powi_53[of "exponent x"] by (simp add: field_simps)
  finally show ?thesis by (simp add: nearest_def Let_def)
qed

lemma nearest_lower:
  assumes "0 < x" and "- 1022 < exponent x"
  shows "2 powi (exponent x) \<le> nearest x"
proof -
  let ?q = "(2::real) powi (exponent x - 52)"
  have "of_int (2 ^ 52) \<le> x / ?q"
    using scaled_lower[OF assms(2)] assms(1) by simp
  then have "2 ^ 52 \<le> round_half_even (x / ?q)" by (rule rhe_ge)
  then have "2 ^ 52 \<le> real_of_int (round_half_even (x / ?q))"
    by (metis of_int_le_iff of_int_numeral of_int_power)
  then have le: "2 ^ 52 * ?q \<le> real_of_int (round_half_even (x / ?q)) * ?q"
    by (simp add: mult_right_mono)
  have "2 powi (exponent x) = 2 ^ 52 * ?q"
    using powi_52[of "exponent x"] by (simp add: field_simps)
  also note le
  finally show ?thesis by (simp add: nearest_def Let_def)
qed

lemma nearest_mono_pos:
  assumes "0 < x" and "x \<le> y"
  shows "nearest x \<le> nearest y"
proof -
  have y: "0 < y" using assms by linarith
  have e: "exponent x \<le> exponent y"
    using exponent_mono[of x y] assms by simp
  show ?thesis
  proof (cases "exponent x = exponent y")
    case True
    let ?q = "(2::real) powi (exponent y - 52)"
    have "x / ?q \<le> y / ?q" using assms(2) by (simp add: divide_right_mono)
    then have "round_half_even (x / ?q) \<le> round_half_even (y / ?q)" by (rule rhe_mono)
    then have "real_of_int (round_half_even (x / ?q)) * ?q \<le> real_of_int (round_half_even (y / ?q)) * ?q"
      by (simp add: mult_right_mono)
    then show ?thesis by (simp add: nearest_def Let_def True)
  next
    case False
    then have lt: "exponent x + 1 \<le> exponent y" using e by simp
    have ey: "- 1022 < exponent y" using lt exponent_ge[of x] by linarith
    have "nearest x \<le> 2 powi (exponent x + 1)" by (rule nearest_upper[OF assms(1)])
    also have "\<dots> \<le> 2 powi (exponent y)" using lt by (intro power_int_increasing) simp_all
    also have "\<dots> \<le> nearest y" by (rule nearest_lower[OF y ey])
    finally show ?thesis .
  qed
qed

lemma nearest_mono: "x \<le> y \<Longrightarrow> nearest x \<le> nearest y"
proof -
  assume xy: "x \<le> y"
  consider "0 < x" | "x \<le> 0" "0 \<le> y" | "y < 0" by linarith
  then show ?thesis
  proof cases
    case 1
    then show ?thesis using xy by (rule nearest_mono_pos)
  next
    case 2
    have "nearest x \<le> 0" using nearest_nonneg[of "- x"] 2(1) by (simp add: nearest_minus)
    moreover have "0 \<le> nearest y" using 2(2) by (rule nearest_nonneg)
    ultimately show ?thesis by linarith
  next
    case 3
    have "nearest (- y) \<le> nearest (- x)" using 3 xy by (intro nearest_mono_pos) simp_all
    then show ?thesis by (simp add: nearest_minus)
  qed
qed


lemma exponent_le:
  assumes "\<bar>x\<bar> < 2 powi (m + 1)" and "- 1022 \<le> m"
  shows "exponent x \<le> m"
proof (rule ccontr)
  assume "\<not> exponent x \<le> m"
  then have gt: "m + 1 \<le> exponent x" by simp
  then have "- 1022 < exponent x" using assms(2) by linarith
  then have "2 powi (exponent x) \<le> \<bar>x\<bar>" by (rule exponent_lower)
  moreover have "(2::real) powi (m + 1) \<le> 2 powi (exponent x)"
    using gt by (intro power_int_increasing) simp_all
  ultimately show False using assms(1) by linarith
qed

lemma nearest_dyadic:
  assumes "x = of_int n * 2 powi k" and "\<bar>x\<bar> < 2 powi (k + 53)" and "- 1074 \<le> k"
  shows "nearest x = x"
proof -
  have "\<bar>x\<bar> < 2 powi ((k + 52) + 1)" using assms(2) by (simp add: add.commute add.left_commute)
  then have "exponent x \<le> k + 52" using assms(3) by (intro exponent_le) simp_all
  then obtain j where j: "k = (exponent x - 52) + int j"
    by (metis add.commute diff_le_eq zle_iff_zadd)
  let ?q = "(2::real) powi (exponent x - 52)"
  have "(2::real) powi k = ?q * 2 powi (int j)" unfolding j by (rule powi_split)
  then have eq: "x = of_int n * (?q * 2 ^ j)" using assms(1) by simp
  have "x / ?q = (of_int n * (?q * 2 ^ j)) / ?q"
    by (rule arg_cong[of _ _ "\<lambda>v. v / ?q"]) (rule eq)
  also have "\<dots> = of_int (n * 2 ^ j)" by simp
  finally have "x / ?q = of_int (n * 2 ^ j)" .
  then have "round_half_even (x / ?q) = n * 2 ^ j" by (simp only: rhe_int)
  then have "nearest x = of_int (n * 2 ^ j) * ?q" by (simp add: nearest_def Let_def)
  also have "\<dots> = of_int n * (?q * 2 ^ j)" by simp
  also have "\<dots> = x" by (rule eq[symmetric])
  finally show ?thesis .
qed

lemma nearest_idem_pos:
  assumes "0 < x"
  shows "nearest (nearest x) = nearest x"
proof -
  let ?e = "exponent x"
  let ?q = "(2::real) powi (?e - 52)"
  let ?n = "round_half_even (x / ?q)"
  have y: "nearest x = of_int ?n * ?q" by (simp add: nearest_def Let_def)
  have n0: "0 \<le> ?n" using assms rhe_ge[of 0 "x / ?q"] by simp
  have "x / ?q \<le> of_int (2 ^ 53)" using scaled_upper[of x] assms by simp
  then have n53: "?n \<le> 2 ^ 53" by (rule rhe_le)
  have k: "- 1074 \<le> ?e - 52" using exponent_ge[of x] by linarith
  show ?thesis
  proof (cases "?n = 2 ^ 53")
    case True
    have "nearest x = 2 ^ 53 * ?q" unfolding y True by simp
    also have "\<dots> = 2 powi (?e + 1)" using powi_53[of ?e] by (simp add: field_simps)
    finally have v: "nearest x = 2 powi (?e + 1)" .
    have "nearest x = of_int 1 * 2 powi (?e + 1)" using v by simp
    moreover have "\<bar>nearest x\<bar> < 2 powi ((?e + 1) + 53)"
      unfolding v by (simp add: power_int_strict_increasing)
    moreover have "- 1074 \<le> ?e + 1" using k by linarith
    ultimately show ?thesis by (rule nearest_dyadic)
  next
    case False
    then have "?n < 2 ^ 53" using n53 by simp
    then have "real_of_int ?n < 2 ^ 53"
      by (metis of_int_less_iff of_int_numeral of_int_power)
    then have "real_of_int ?n * ?q < 2 ^ 53 * ?q" by (simp add: mult_strict_right_mono)
    also have "2 ^ 53 * ?q = 2 powi ((?e - 52) + 53)"
      using powi_53[of ?e] by (simp add: field_simps)
    finally have lt: "nearest x < 2 powi ((?e - 52) + 53)" unfolding y .
    have "0 \<le> nearest x" using assms by (intro nearest_nonneg) simp
    then have "\<bar>nearest x\<bar> < 2 powi ((?e - 52) + 53)" using lt by simp
    with y show ?thesis using k by (rule nearest_dyadic)
  qed
qed

lemma nearest_idem: "nearest (nearest x) = nearest x"
proof -
  consider "0 < x" | "x = 0" | "x < 0" by linarith
  then show ?thesis
  proof cases
    case 1 then show ?thesis by (rule nearest_idem_pos)
  next
    case 2 then show ?thesis by simp
  next
    case 3
    then have "nearest (nearest (- x)) = nearest (- x)" by (intro nearest_idem_pos) simp
    then show ?thesis by (simp add: nearest_minus)
  qed
qed

lemma round_double_not_NaN [simp]: "round_double x \<noteq> NaN"
  by (simp add: round_double_def Let_def)

lemma overflowThreshold_pos [simp]: "0 < overflowThreshold"
  by (simp add: overflowThreshold_def)

lemma two53_lt_overflowThreshold: "2 ^ 53 < overflowThreshold"
  unfolding overflowThreshold_def by (rule power_strict_increasing) simp_all

lemma round_double_exact:
  assumes "nearest x = x" and "\<bar>x\<bar> < overflowThreshold"
  shows "round_double x = Fin x"
proof -
  have "\<not> overflowThreshold \<le> x" "\<not> x \<le> - overflowThreshold" using assms(2) by linarith+
  then show ?thesis using assms(1) by (simp add: round_double_def Let_def)
qed

lemma round_double_zero [simp]: "round_double 0 = Fin 0"
  by (rule round_double_exact) simp_all

lemma round_double_mono:
  assumes "x \<le> y"
  shows "js_le (round_double x) (round_double y)"
  using nearest_mono[OF assms] overflowThreshold_pos
  by (auto simp: round_double_def Let_def simp del: overflowThreshold_pos)

lemma round_double_minus: "round_double (- x) = js_neg (round_double x)"
  using overflowThreshold_pos
  by (auto simp: round_double_def Let_def nearest_minus simp del: overflowThreshold_pos)

lemma round_double_idem:
  assumes "round_double x = Fin y"
  shows "round_double y = Fin y"
proof -
  have y: "y = nearest x"
    and b: "\<not> overflowThreshold \<le> nearest x" "\<not> nearest x \<le> - overflowThreshold"
    using assms by (auto simp: round_double_def Let_def split: if_splits)
  have "nearest y = y" unfolding y by (rule nearest_idem)
  then show ?thesis using b y by (simp add: round_double_def Let_def)
qed

lemma round_double_dyadic:
  assumes "x = of_int n * 2 powi k" and "\<bar>x\<bar> < 2 powi (k + 53)" and "- 1074 \<le> k"
    and "\<bar>x\<bar> < overflowThreshold"
  shows "round_double x = Fin x"
  using nearest_dyadic[OF assms(1-3)] assms(4) by (rule round_double_exact)

lemma round_double_int:
  assumes "\<bar>n\<bar> < 2 ^ 53"
  shows "round_double (of_int n) = Fin (of_int n)"
proof -
  have lt: "\<bar>real_of_int n\<bar> < 2 ^ 53"
    using assms by (metis of_int_abs of_int_less_iff of_int_numeral of_int_power)
  have a: "real_of_int n = of_int n * 2 powi 0" by simp
  have b: "\<bar>real_of_int n\<bar> < 2 powi (0 + 53)" using lt by simp
  have c: "\<bar>real_of_int n\<bar> < overflowThreshold"
    using lt two53_lt_overflowThreshold by linarith
  show ?thesis using a b _ c by (rule round_double_dyadic) simp
qed

lemma js_le_trans: "js_le a b \<Longrightarrow> js_le b c \<Longrightarrow> js_le a c"
  by (cases a; cases b; cases c) auto

lemma js_le_refl: "a \<noteq> NaN \<Longrightarrow> js_le a a"
  by (cases a) auto

lemma isDouble_round [simp]: "isDouble (round_double x)"
  by (auto simp: isDouble_def round_double_idem split: jsnum.splits)

lemma round_tenth: "round_double (1 / 10) = Fin (3602879701896397 / 36028797018963968)"
proof -
  have e: "exponent (1 / 10) = - 4"
    by (rule exponent_eqI) (simp_all add: power_int_minus)
  have n: "nearest (1 / 10) = 3602879701896397 / 36028797018963968"
    by (simp add: nearest_def e Let_def power_int_minus round_half_even_def)
  have "(3602879701896397 / 36028797018963968 :: real) < 2 ^ 53" by simp
  then have "\<bar>3602879701896397 / 36028797018963968 :: real\<bar> < overflowThreshold"
    using two53_lt_overflowThreshold by simp
  then show ?thesis
    unfolding round_double_def Let_def n by (simp add: abs_if split: if_splits)
qed


lemma round_overflow: "round_double overflowThreshold = PosInf"
proof -
  have e: "exponent overflowThreshold = 1024"
    by (rule exponent_eqI) (simp_all add: overflowThreshold_def)
  have n: "nearest overflowThreshold = overflowThreshold"
    using e by (simp add: nearest_def Let_def overflowThreshold_def round_half_even_def)
  show ?thesis unfolding round_double_def Let_def n by simp
qed

text \<open>Bounds that rounding keeps, and the draw \<open>Math.random() * 2 - 1\<close>.\<close>

lemma round_le_double:
  assumes "x \<le> y" and "round_double y = Fin y"
  shows "js_le (round_double x) (Fin y)"
  using round_double_mono[OF assms(1)] assms(2) by simp

lemma round_ge_double:
  assumes "y \<le> x" and "round_double y = Fin y"
  shows "js_le (Fin y) (round_double x)"
  using round_double_mono[OF assms(1)] assms(2) by simp

lemma round_nonneg: "0 \<le> x \<Longrightarrow> js_le (Fin 0) (round_double x)"
  using round_ge_double[of 0 x] by simp

lemma round_neg_double:
  assumes "round_double y = Fin y"
  shows "round_double (- y) = Fin (- y)"
  using assms by (simp add: round_double_minus)

lemma round_one [simp]: "round_double 1 = Fin 1"
  using round_double_int[of 1] by simp

lemma round_two [simp]: "round_double 2 = Fin 2"
  using round_double_int[of 2] by simp

lemma round_minus_one [simp]: "round_double (- 1) = Fin (- 1)"
  using round_neg_double[OF round_one] by simp

lemma draw_range:
  assumes "0 \<le> r" and "r \<le> 1"
  shows "\<exists>u. js_sub (js_mul (Fin r) (Fin 2)) (Fin 1) = Fin u \<and> - 1 \<le> u \<and> u \<le> 1"
proof -
  have lo: "js_le (Fin 0) (round_double (r * 2))" using assms(1) by (intro round_nonneg) simp
  have hi: "js_le (round_double (r * 2)) (Fin 2)"
    using assms(2) by (intro round_le_double) simp_all
  obtain v where v: "round_double (r * 2) = Fin v" "0 \<le> v" "v \<le> 2"
    using lo hi by (cases "round_double (r * 2)") auto
  have lo2: "js_le (Fin (- 1)) (round_double (v - 1))"
    using v(2) by (intro round_ge_double) simp_all
  have hi2: "js_le (round_double (v - 1)) (Fin 1)"
    using v(3) by (intro round_le_double) simp_all
  obtain u where u: "round_double (v - 1) = Fin u" "- 1 \<le> u" "u \<le> 1"
    using lo2 hi2 by (cases "round_double (v - 1)") auto
  have "js_sub (js_mul (Fin r) (Fin 2)) (Fin 1) = Fin u"
    by (simp add: js_sub_def v(1) u(1))
  then show ?thesis using u(2,3) by blast
qed

lemma Math_max_mono:
  assumes "js_le a b" and "c \<noteq> NaN"
  shows "js_le (Math_max c a) (Math_max c b)"
  using assms by (cases a; cases b; cases c) (auto simp: Math_max_def)

lemma Math_max_lower: "c \<noteq> NaN \<Longrightarrow> a \<noteq> NaN \<Longrightarrow> js_le c (Math_max c a)"
  by (cases a; cases c) (auto simp: Math_max_def)

lemma Math_max_upper: "js_le c b \<Longrightarrow> js_le a b \<Longrightarrow> js_le (Math_max c a) b"
  by (cases a; cases b; cases c) (auto simp: Math_max_def)

section \<open>The binary frame\<close>

lemma protocolData_ok:
  assumes "length data \<le> 65535"
  shows "protocolData uc rnd data dataType =
     Inr ([0x82, of_nat (drop_bit 8 (length data) AND 0xFF), of_nat (length data AND 0xFF)]
          @ write_ascii (replicate 7 0) (take 7 (toUpperCase uc dataType))
          @ map (\<lambda>i. of_int \<lfloor>rnd i * 256\<rfloor>) [0..<4]
          @ map (\<lambda>i. data ! i XOR (map (\<lambda>i. of_int \<lfloor>rnd i * 256\<rfloor>) [0..<4]) ! (i mod 4))
              [0..<length data])"
proof -
  have len: "length (write_ascii (replicate 7 0) (take 7 (toUpperCase uc dataType))) = 7"
    by (simp add: write_ascii_def)
  have "map (\<lambda>i. write_ascii (replicate 7 0) (take 7 (toUpperCase uc dataType)) ! i) [0..<7]
        = write_ascii (replicate 7 0) (take 7 (toUpperCase uc dataType))"
    using len by (metis map_nth)
  then show ?thesis using assms by (simp add: protocolData_def Let_def)
qed

lemma protocolData_too_large:
  assumes "length data > 65535"
  shows "protocolData uc rnd data dataType =
     Inl (StreamIndError SIGNAL_TOO_LARGE (js ''Binary data exceeds 65535 bytes''))"
  using assms by (simp add: protocolData_def new_StreamIndError_def js_def)

lemma length_write_ascii7: "length (write_ascii (replicate 7 0) (take 7 s)) = 7"
  by (simp add: write_ascii_def)

lemma xor_decode_frame:
  assumes "length hdr = 10" "length mk = 4"
  shows "xor_decode (hdr @ mk @ map (\<lambda>i. data ! i XOR mk ! (i mod 4)) [0..<length data]) = data"
  using assms
  by (auto simp: xor_decode_def Let_def xor.assoc intro!: nth_equalityI)

lemma sendBinaryData_handed:
  assumes "connected t" and "ws t = Some sock"
    and "protocolData uc rnd data dataType = Inr frame"
  shows "ws (fst (snd (sendBinaryData uc rnd now outcome t data dataType))) =
           Some (sock\<lparr>handed := handed sock @ [BinaryFrame frame]\<rparr>)"
  using assms by (simp add: sendBinaryData_def sendBinary_def Let_def split: option.splits)

text \<open>
  C1. On a connected transport, for every payload of at most 65535 bytes, every data-type
  tag and every mask key drawn, a frame is handed to the socket; it holds the mask key
  at bytes 10 to 13, and XOR-ing byte \<open>i\<close> of its payload section (from byte 14) with
  byte \<open>i mod 4\<close> of that embedded key gives back the payload.
\<close>

theorem binary_frame_round_trip:
  assumes "connected t" and "ws t = Some sock" and "length data \<le> 65535"
  shows "\<exists>frame. protocolData uc rnd data dataType = Inr frame
           \<and> ws (fst (snd (sendBinaryData uc rnd now outcome t data dataType)))
               = Some (sock\<lparr>handed := handed sock @ [BinaryFrame frame]\<rparr>)
           \<and> length frame = 14 + length data
           \<and> take 4 (drop 10 frame) = map (\<lambda>i. of_int \<lfloor>rnd i * 256\<rfloor>) [0..<4]
           \<and> xor_decode frame = data"
proof -
  let ?hdr = "[0x82, of_nat (drop_bit 8 (length data) AND 0xFF), of_nat (length data AND 0xFF)]
          @ write_ascii (replicate 7 0) (take 7 (toUpperCase uc dataType))"
  let ?mk = "map (\<lambda>i. of_int \<lfloor>rnd i * 256\<rfloor> :: byte) [0..<4]"
  let ?frame = "?hdr @ ?mk @ map (\<lambda>i. data ! i XOR ?mk ! (i mod 4)) [0..<length data]"
  have p: "protocolData uc rnd data dataType = Inr ?frame"
    using protocolData_ok[OF assms(3)] by simp
  have h: "length ?hdr = 10" by (simp add: length_write_ascii7)
  have m: "length ?mk = 4" by simp
  have d: "xor_decode ?frame = data" using xor_decode_frame[OF h m] .
  have k: "take 4 (drop 10 ?frame) = ?mk" using h m by simp
  have l: "length ?frame = 14 + length data" using h m by simp
  have w: "ws (fst (snd (sendBinaryData uc rnd now outcome t data dataType)))
             = Some (sock\<lparr>handed := handed sock @ [BinaryFrame ?frame]\<rparr>)"
    using sendBinaryData_handed[OF assms(1,2) p] .
  from p w l k d show ?thesis by blast
qed

theorem binary_frame_round_trip_witness:
  "\<exists>frame. protocolData (\<lambda>s. s) (\<lambda>i. 1 / 2) (replicate 65535 7) (js ''opus'') = Inr frame
           \<and> ws (fst (snd (sendBinaryData (\<lambda>s. s) (\<lambda>i. 1 / 2) 2000 None openTransport
                              (replicate 65535 7) (js ''opus''))))
               = Some \<lparr>handed = [BinaryFrame frame]\<rparr>
           \<and> length frame = 14 + length (replicate 65535 (7::byte))
           \<and> take 4 (drop 10 frame) = map (\<lambda>i. of_int \<lfloor>(1 / 2 :: real) * 256\<rfloor>) [0..<4]
           \<and> xor_decode frame = replicate 65535 7"
proof -
  have c: "connected openTransport" by (simp add: openTransport_def)
  have s: "ws openTransport = Some \<lparr>handed = []\<rparr>" by (simp add: openTransport_def)
  have n: "length (replicate 65535 (7::byte)) \<le> 65535" by simp
  show ?thesis
    using binary_frame_round_trip[OF c s n, of "\<lambda>s. s" "\<lambda>i. 1 / 2" "js ''opus''" 2000 None]
    by simp
qed

lemma and_255: "(n::nat) AND 0xFF = n mod 256"
proof -
  have "n AND mask 8 = n mod 2 ^ 8"
    by (simp add: take_bit_eq_mask[symmetric] take_bit_eq_mod)
  moreover have "mask 8 = (255::nat)" by (simp add: mask_eq_exp_minus_1)
  ultimately show ?thesis by simp
qed

lemma be16:
  assumes "n \<le> 65535"
  shows "unat (of_nat (drop_bit 8 n AND 0xFF) :: byte) * 256 + unat (of_nat (n AND 0xFF) :: byte) = n"
proof -
  have d: "drop_bit 8 n = n div 256" by (simp add: drop_bit_eq_div)
  have lt: "n div 256 < 256" using assms by simp
  have hi: "unat (of_nat (drop_bit 8 n AND 0xFF) :: byte) = n div 256"
    using lt by (simp add: and_255 d unat_of_nat)
  have lo: "unat (of_nat (n AND 0xFF) :: byte) = n mod 256"
    by (simp add: and_255 unat_of_nat)
  show ?thesis unfolding hi lo by simp
qed

lemma tag_ascii:
  assumes "list_all (\<lambda>c. c < 128) dataType"
  shows "write_ascii (replicate 7 0) (take 7 (toUpperCase uc dataType))
         = map (ucast \<circ> asciiUpper) (take 7 dataType) @ replicate (7 - length dataType) 0"
  using assms by (simp add: write_ascii_def toUpperCase_def take_map)

lemma tag_general:
  "write_ascii (replicate 7 0) (take 7 (toUpperCase uc dataType))
   = map ucast (take 7 (toUpperCase uc dataType)) @ replicate (7 - length (toUpperCase uc dataType)) 0"
  by (simp add: write_ascii_def)

lemma tag_opus:
  "write_ascii (replicate 7 0) (take 7 (toUpperCase uc (js ''opus''))) = [0x4F, 0x50, 0x55, 0x53, 0, 0, 0]"
  by (simp add: write_ascii_def toUpperCase_def js_def asciiUpper_def numeral_3_eq_3)

lemma tag_long:
  "write_ascii (replicate 7 0) (take 7 (toUpperCase uc (js ''opus-wideband''))) = map ucast (js ''OPUS-WI'')"
  by (simp add: write_ascii_def toUpperCase_def js_def asciiUpper_def)

text \<open>
  C3. On a connected transport, for every payload of \<open>n \<le> 65535\<close> bytes and every
  data-type tag, the frame handed to the socket has byte 0 equal to \<open>0x82\<close>, bytes 1 and
  2 equal to \<open>n\<close> as a big-endian 16-bit number, and bytes 3 to 9 equal to the upper-cased
  tag cut to 7 characters, each stored as its low byte, followed by zero bytes up to 7.
  For an ASCII tag the upper-casing is that of \<open>a\<close>..\<open>z\<close>; \<open>opus\<close> gives
  \<open>OPUS\<close> and three zero bytes; a 13-character tag is cut to its first 7 characters
  and the frame is still built.
\<close>

theorem binary_frame_header:
  assumes "connected t" and "ws t = Some sock" and "length data \<le> 65535"
  shows "\<exists>frame. protocolData uc rnd data dataType = Inr frame
           \<and> ws (fst (snd (sendBinaryData uc rnd now outcome t data dataType)))
               = Some (sock\<lparr>handed := handed sock @ [BinaryFrame frame]\<rparr>)
           \<and> frame ! 0 = 0x82
           \<and> unat (frame ! 1) * 256 + unat (frame ! 2) = length data
           \<and> take 7 (drop 3 frame)
               = map ucast (take 7 (toUpperCase uc dataType))
                 @ replicate (7 - length (toUpperCase uc dataType)) 0
           \<and> (list_all (\<lambda>c. c < 128) dataType \<longrightarrow>
                take 7 (drop 3 frame)
                  = map (ucast \<circ> asciiUpper) (take 7 dataType) @ replicate (7 - length dataType) 0)
           \<and> (dataType = js ''opus'' \<longrightarrow>
                take 7 (drop 3 frame) = [0x4F, 0x50, 0x55, 0x53, 0, 0, 0])
           \<and> (dataType = js ''opus-wideband'' \<longrightarrow>
                take 7 (drop 3 frame) = map ucast (js ''OPUS-WI''))"
proof -
  let ?tag = "write_ascii (replicate 7 0) (take 7 (toUpperCase uc dataType))"
  let ?mk = "map (\<lambda>i. of_int \<lfloor>rnd i * 256\<rfloor> :: byte) [0..<4]"
  let ?rest = "?mk @ map (\<lambda>i. data ! i XOR ?mk ! (i mod 4)) [0..<length data]"
  let ?hi = "of_nat (drop_bit 8 (length data) AND 0xFF) :: byte"
  let ?lo = "of_nat (length data AND 0xFF) :: byte"
  let ?frame = "[0x82, ?hi, ?lo] @ ?tag @ ?rest"
  have p: "protocolData uc rnd data dataType = Inr ?frame"
    using protocolData_ok[OF assms(3)] by simp
  have w: "ws (fst (snd (sendBinaryData uc rnd now outcome t data dataType)))
             = Some (sock\<lparr>handed := handed sock @ [BinaryFrame ?frame]\<rparr>)"
    using sendBinaryData_handed[OF assms(1,2) p] .
  have b0: "?frame ! 0 = 0x82" by simp
  have b12: "unat (?frame ! 1) * 256 + unat (?frame ! 2) = length data"
    using be16[OF assms(3)] by simp
  have tg: "take 7 (drop 3 ?frame) = ?tag"
    using length_write_ascii7[of "toUpperCase uc dataType"] by simp
  have g: "take 7 (drop 3 ?frame) = map ucast (take 7 (toUpperCase uc dataType))
                 @ replicate (7 - length (toUpperCase uc dataType)) 0"
    unfolding tg by (rule tag_general)
  have a: "list_all (\<lambda>c. c < 128) dataType \<longrightarrow>
                take 7 (drop 3 ?frame)
                  = map (ucast \<circ> asciiUpper) (take 7 dataType) @ replicate (7 - length dataType) 0"
    unfolding tg using tag_ascii by blast
  have o: "dataType = js ''opus'' \<longrightarrow> take 7 (drop 3 ?frame) = [0x4F, 0x50, 0x55, 0x53, 0, 0, 0]"
    unfolding tg using tag_opus by blast
  have lg: "dataType = js ''opus-wideband'' \<longrightarrow> take 7 (drop 3 ?frame) = map ucast (js ''OPUS-WI'')"
    unfolding tg using tag_long by blast
  from p w b0 b12 g a o lg show ?thesis by blast
qed

theorem binary_frame_header_witness:
  "\<exists>frame. protocolData (\<lambda>s. s) (\<lambda>i. 1 / 2) (replicate 160 7) (js ''opus'') = Inr frame
           \<and> ws (fst (snd (sendBinaryData (\<lambda>s. s) (\<lambda>i. 1 / 2) 2000 None openTransport
                              (replicate 160 7) (js ''opus''))))
               = Some \<lparr>handed = [BinaryFrame frame]\<rparr>
           \<and> frame ! 0 = 0x82
           \<and> unat (frame ! 1) * 256 + unat (frame ! 2) = 160
           \<and> take 7 (drop 3 frame) = [0x4F, 0x50, 0x55, 0x53, 0, 0, 0]
           \<and> take 7 (drop 3 frame)
               = map (ucast \<circ> asciiUpper) (take 7 (js ''opus'')) @ replicate (7 - length (js ''opus'')) 0"
proof -
  have c: "connected openTransport" by (simp add: openTransport_def)
  have s: "ws openTransport = Some \<lparr>handed = []\<rparr>" by (simp add: openTransport_def)
  have n: "length (replicate 160 (7::byte)) \<le> 65535" by simp
  have a: "list_all (\<lambda>c. c < 128) (js ''opus'')" by (simp add: js_def)
  show ?thesis
    using binary_frame_header[OF c s n, of "\<lambda>s. s" "\<lambda>i. 1 / 2" "js ''opus''" 2000 None] a
    by auto
qed

text \<open>
  C2. What \<open>sendBinaryData\<close> does with a payload of more than 65535 bytes on a connected
  transport: the \<open>SIGNAL_TOO_LARGE\<close> error is thrown inside the \<open>try\<close>, the \<open>catch\<close>
  replaces it, and the promise rejects with code \<open>SEND_FAILED\<close>; the error counter is
  incremented, the error callback (when set) is invoked with \<open>SEND_FAILED\<close>, and nothing
  is handed to the socket.
\<close>

theorem oversized_binary_reports_SEND_FAILED:
  assumes "connected t" and "length data > 65535"
  shows "sendBinaryData uc rnd now outcome t data dataType =
           (Inl (StreamIndError SEND_FAILED (js ''Binary data exceeds 65535 bytes'')),
            t\<lparr>stats := (stats t)\<lparr>errors := errors (stats t) + 1\<rparr>\<rparr>,
            (case onError t of None \<Rightarrow> []
             | Some cb \<Rightarrow> [OnError cb SEND_FAILED (js ''Binary data exceeds 65535 bytes'')]))
       \<and> ws (fst (snd (sendBinaryData uc rnd now outcome t data dataType))) = ws t"
  using assms
  by (simp add: sendBinaryData_def protocolData_too_large new_StreamIndError_def js_def
           split: option.splits)

theorem oversized_binary_reports_SEND_FAILED_witness:
  "sendBinaryData (\<lambda>s. s) (\<lambda>i. 1 / 2) 2000 None openTransport (replicate 65536 0) (js ''opus'') =
     (Inl (StreamIndError SEND_FAILED (js ''Binary data exceeds 65535 bytes'')),
      openTransport\<lparr>stats := (stats openTransport)\<lparr>errors := 1\<rparr>\<rparr>,
      [])
   \<and> ws (fst (snd (sendBinaryData (\<lambda>s. s) (\<lambda>i. 1 / 2) 2000 None openTransport
                      (replicate 65536 0) (js ''opus'')))) = Some \<lparr>handed = []\<rparr>"
proof -
  have c: "connected openTransport" by (simp add: openTransport_def)
  have n: "length (replicate 65536 (0::byte)) > 65535" by simp
  have e: "errors (stats openTransport) = 0" "onError openTransport = None"
    "ws openTransport = Some \<lparr>handed = []\<rparr>"
    by (simp_all add: openTransport_def new_WebSocketTransport_def)
  show ?thesis
    using oversized_binary_reports_SEND_FAILED[OF c n, of "\<lambda>s. s" "\<lambda>i. 1 / 2" 2000 None "js ''opus''"] e
    by simp
qed

section \<open>The backoff delay\<close>

text \<open>
  Where the power is not negative and the product of the base and the power is not
  \<open>0 * Infinity\<close>, the delay before the jitter is a finite number between 0 and the
  maximum, and it does not decrease when the power does not
  (\<open>cappedDelay_nondecreasing\<close>); a power that rounds the exact one does not decrease
  with the attempts for a factor of at least 1 (\<open>roundedPow_nondecreasing\<close>).
\<close>

lemma Math_min_capped:
  assumes "js_le (Fin 0) x" and "0 \<le> M"
  shows "\<exists>d. Math_min x (Fin M) = Fin d \<and> 0 \<le> d \<and> d \<le> M"
  using assms by (cases x) (auto simp: Math_min_def)

lemma uncapped_nonneg:
  assumes "0 \<le> b" and "js_le (Fin 0) p" and "\<not> (b = 0 \<and> p = PosInf)"
  shows "js_le (Fin 0) (js_mul (Fin b) p)"
proof (cases p)
  case (Fin x)
  then have "0 \<le> b * x" using assms(1,2) by simp
  then show ?thesis using Fin by (simp add: round_nonneg)
next
  case PosInf
  then have "0 < b" using assms(1,3) by simp
  then show ?thesis using PosInf by (simp add: inf_times_def)
next
  case NegInf
  then show ?thesis using assms(2) by simp
next
  case NaN
  then show ?thesis using assms(2) by simp
qed

lemma cappedDelay_finite:
  assumes "baseReconnectIntervalMs' (config t) = Fin b" and "0 \<le> b"
    and "maxReconnectIntervalMs' (config t) = Fin M" and "0 \<le> M"
    and "js_le (Fin 0) (pow (backoffFactor' (config t)) (reconnectAttempts t))"
    and "\<not> (b = 0 \<and> pow (backoffFactor' (config t)) (reconnectAttempts t) = PosInf)"
  shows "\<exists>d. cappedDelay pow t = Fin d \<and> 0 \<le> d \<and> d \<le> M"
proof -
  have "js_le (Fin 0) (js_mul (Fin b) (pow (backoffFactor' (config t)) (reconnectAttempts t)))"
    using assms(2,5,6) by (rule uncapped_nonneg)
  then show ?thesis
    using assms(1,3,4) by (simp add: cappedDelay_def Let_def Math_min_capped)
qed

lemma round_double_nearest:
  assumes "nearest x = y" and "\<bar>y\<bar> < 2 ^ 53"
  shows "round_double x = Fin y"
proof -
  have "\<bar>y\<bar> < overflowThreshold" using assms(2) two53_lt_overflowThreshold by simp
  then show ?thesis
    unfolding round_double_def Let_def assms(1) by (simp add: abs_if split: if_splits)
qed

lemma js_mul_mono:
  assumes "0 \<le> b" and "js_le (Fin 0) p" and "js_le p q" and "\<not> (b = 0 \<and> q = PosInf)"
  shows "js_le (js_mul (Fin b) p) (js_mul (Fin b) q)"
proof (cases p)
  case p: (Fin x)
  show ?thesis
  proof (cases q)
    case (Fin y)
    then have "b * x \<le> b * y" using assms(1,3) p by (simp add: mult_left_mono)
    then show ?thesis using p Fin by (simp add: round_double_mono)
  next
    case PosInf
    then have "0 < b" using assms(1,4) by simp
    then show ?thesis using p PosInf by (cases "round_double (b * x)") (simp_all add: inf_times_def)
  next
    case NegInf
    then show ?thesis using assms(3) p by simp
  next
    case NaN
    then show ?thesis using assms(3) p by simp
  qed
next
  case p: PosInf
  then have q: "q = PosInf" using assms(3) by (cases q) simp_all
  then have "0 < b" using assms(1,4) by simp
  then show ?thesis using p q by (simp add: inf_times_def)
next
  case NegInf
  then show ?thesis using assms(2) by simp
next
  case NaN
  then show ?thesis using assms(2) by simp
qed

lemma Math_min_mono:
  assumes "js_le a b" and "c \<noteq> NaN"
  shows "js_le (Math_min a c) (Math_min b c)"
  using assms by (cases a; cases b; cases c) (auto simp: Math_min_def)

lemma cappedDelay_attempts:
  "cappedDelay pow (t\<lparr>reconnectAttempts := n\<rparr>)
     = Math_min (js_mul (baseReconnectIntervalMs' (config t))
                        (pow (backoffFactor' (config t)) n))
                (maxReconnectIntervalMs' (config t))"
  by (simp add: cappedDelay_def Let_def)

lemma cappedDelay_nondecreasing:
  assumes "baseReconnectIntervalMs' (config t) = Fin b" and "0 \<le> b"
    and "maxReconnectIntervalMs' (config t) = Fin M" and "0 \<le> M"
    and "js_le (Fin 0) (pow (backoffFactor' (config t)) n)"
    and "js_le (pow (backoffFactor' (config t)) n) (pow (backoffFactor' (config t)) m)"
    and "\<not> (b = 0 \<and> pow (backoffFactor' (config t)) m = PosInf)"
  shows "js_le (cappedDelay pow (t\<lparr>reconnectAttempts := n\<rparr>))
               (cappedDelay pow (t\<lparr>reconnectAttempts := m\<rparr>))
       \<and> js_le (cappedDelay pow (t\<lparr>reconnectAttempts := m\<rparr>)) (Fin M)"
proof -
  have le: "js_le (js_mul (Fin b) (pow (backoffFactor' (config t)) n))
                  (js_mul (Fin b) (pow (backoffFactor' (config t)) m))"
    using assms(2,5,6,7) by (rule js_mul_mono)
  have first: "js_le (Math_min (js_mul (Fin b) (pow (backoffFactor' (config t)) n)) (Fin M))
                     (Math_min (js_mul (Fin b) (pow (backoffFactor' (config t)) m)) (Fin M))"
    using le by (rule Math_min_mono) simp
  have "js_le (Fin 0) (pow (backoffFactor' (config t)) m)"
    using assms(5,6) by (rule js_le_trans)
  then have "js_le (Fin 0) (js_mul (Fin b) (pow (backoffFactor' (config t)) m))"
    using assms(2,7) by (intro uncapped_nonneg)
  then obtain d where "Math_min (js_mul (Fin b) (pow (backoffFactor' (config t)) m)) (Fin M) = Fin d"
      and "d \<le> M"
    using Math_min_capped[OF _ assms(4)] by blast
  then have second: "js_le (Math_min (js_mul (Fin b) (pow (backoffFactor' (config t)) m)) (Fin M)) (Fin M)"
    by simp
  show ?thesis
    unfolding cappedDelay_attempts assms(1,3) using first second by (rule conjI)
qed

lemma roundedPow_nondecreasing:
  assumes "1 \<le> x" and "n \<le> m"
  shows "js_le (Fin 0) (roundedPow (Fin x) n) \<and> js_le (roundedPow (Fin x) n) (roundedPow (Fin x) m)"
proof -
  have "x ^ n \<le> x ^ m" using assms(2,1) by (rule power_increasing)
  moreover have "0 \<le> x ^ n" using assms(1) by simp
  ultimately show ?thesis by (simp add: round_double_mono round_nonneg)
qed

lemma roundedPow_two_overflow: "roundedPow (Fin 2) 1024 = PosInf"
  by (simp only: roundedPow.simps overflowThreshold_def[symmetric] round_overflow)

lemma default_jitter:
  "jitterFactor' (getConfigWithDefaults exampleConfig) = Fin (3602879701896397 / 36028797018963968)"
  using round_tenth by (simp add: getConfigWithDefaults_def exampleConfig_def nullish_def)

lemma round_jitter_60000:
  "round_double (6755399441055744375 / 1125899906842624) = Fin 6000"
proof -
  have e: "exponent (6755399441055744375 / 1125899906842624) = 12"
    by (rule exponent_eqI) simp_all
  have n: "nearest (6755399441055744375 / 1125899906842624) = 6000"
    by (simp add: nearest_def e Let_def power_int_minus round_half_even_def)
  show ?thesis using n by (rule round_double_nearest) simp
qed

lemma round_jitter_8000:
  "round_double (450359962737049625 / 562949953421312) = Fin 800"
proof -
  have e: "exponent (450359962737049625 / 562949953421312) = 9"
    by (rule exponent_eqI) simp_all
  have n: "nearest (450359962737049625 / 562949953421312) = 800"
    by (simp add: nearest_def e Let_def power_int_minus round_half_even_def)
  show ?thesis using n by (rule round_double_nearest) simp
qed

lemma round_small_int:
  assumes "(numeral k :: int) < 2 ^ 53"
  shows "round_double (numeral k) = Fin (numeral k)"
  using round_double_int[of "numeral k"] assms by simp

lemma config_openTransport:
  "config (openTransport\<lparr>reconnectAttempts := n\<rparr>) = getConfigWithDefaults exampleConfig"
  by (simp add: openTransport_def new_WebSocketTransport_def)

lemma defaults_example:
  "baseReconnectIntervalMs' (getConfigWithDefaults exampleConfig) = Fin 1000"
  "maxReconnectIntervalMs' (getConfigWithDefaults exampleConfig) = Fin 60000"
  "backoffFactor' (getConfigWithDefaults exampleConfig) = Fin 2"
  by (simp_all add: getConfigWithDefaults_def exampleConfig_def nullish_def)

lemma capped_10: "cappedDelay roundedPow (openTransport\<lparr>reconnectAttempts := 10\<rparr>) = Fin 60000"
  by (simp add: cappedDelay_def Let_def config_openTransport defaults_example
      round_small_int Math_min_def)

lemma capped_3: "cappedDelay roundedPow (openTransport\<lparr>reconnectAttempts := 3\<rparr>) = Fin 8000"
  by (simp add: cappedDelay_def Let_def config_openTransport defaults_example
      round_small_int Math_min_def)

lemma round_half: "round_double (1 / 2) = Fin (1 / 2)"
proof -
  have e: "exponent (1 / 2) = - 1"
    by (rule exponent_eqI) (simp_all add: power_int_minus)
  have n: "nearest (1 / 2) = 1 / 2"
    by (simp add: nearest_def e Let_def power_int_minus round_half_even_def)
  show ?thesis using n by (rule round_double_nearest) simp
qed

lemma round_minus_half: "round_double (- (1 / 2)) = Fin (- (1 / 2))"
  by (simp add: round_double_minus round_half)

lemma delay_10_half:
  "calculateBackoffDelay roundedPow (1 / 2) (openTransport\<lparr>reconnectAttempts := 10\<rparr>) = Fin 60000"
  unfolding calculateBackoffDelay_def Let_def capped_10 config_openTransport default_jitter
  by (simp add: js_sub_def round_jitter_60000 round_small_int Math_max_def)

lemma delay_3_quarter:
  "calculateBackoffDelay roundedPow (1 / 4) (openTransport\<lparr>reconnectAttempts := 3\<rparr>) = Fin 7600"
  unfolding calculateBackoffDelay_def Let_def capped_3 config_openTransport default_jitter
  by (simp add: js_sub_def round_jitter_8000 round_small_int round_half round_minus_half
      round_double_minus Math_max_def)

lemma roundedPow_two_1023: "roundedPow (Fin 2) 1023 = Fin (2 ^ 1023)"
  unfolding roundedPow.simps
  by (rule round_double_dyadic[where n = 1 and k = 1023]) (simp_all add: overflowThreshold_def)

lemma config_zeroBaseTransport:
  "config (zeroBaseTransport n)
     = getConfigWithDefaults (exampleConfig\<lparr>baseReconnectIntervalMs := Some (Fin 0)\<rparr>)"
  "reconnectAttempts (zeroBaseTransport n) = n"
  by (simp_all add: zeroBaseTransport_def new_WebSocketTransport_def)

lemma defaults_zeroBase:
  "baseReconnectIntervalMs'
     (getConfigWithDefaults (exampleConfig\<lparr>baseReconnectIntervalMs := Some (Fin 0)\<rparr>)) = Fin 0"
  "maxReconnectIntervalMs'
     (getConfigWithDefaults (exampleConfig\<lparr>baseReconnectIntervalMs := Some (Fin 0)\<rparr>)) = Fin 60000"
  "backoffFactor'
     (getConfigWithDefaults (exampleConfig\<lparr>baseReconnectIntervalMs := Some (Fin 0)\<rparr>)) = Fin 2"
  by (simp_all add: getConfigWithDefaults_def exampleConfig_def nullish_def)

lemma capped_zero_1023: "cappedDelay roundedPow (zeroBaseTransport 1023) = Fin 0"
  unfolding cappedDelay_def Let_def config_zeroBaseTransport defaults_zeroBase roundedPow_two_1023
  by (simp add: Math_min_def)

text \<open>
  C4 fails on one kind of input that it admits. With a base interval of 0 and so many
  attempts that \<open>Math.pow(factor, attempts)\<close> overflows to \<open>Infinity\<close>, the product
  \<open>0 * Infinity\<close> is \<open>NaN\<close>; \<open>Math.min\<close> and \<open>Math.max\<close> pass it on, so the delay
  before the jitter and the delay returned are both \<open>NaN\<close>, which is neither at most
  \<open>maxReconnectIntervalMs\<close> nor at least 0. With the default factor 2 this happens at the
  attempt 1024, after a delay of 0 at the attempt 1023.
\<close>

theorem zero_base_overflow_gives_NaN:
  assumes "baseReconnectIntervalMs' (config t) = Fin 0"
    and "pow (backoffFactor' (config t)) (reconnectAttempts t) = PosInf"
    and "maxReconnectIntervalMs' (config t) = Fin M"
  shows "cappedDelay pow t = NaN
       \<and> calculateBackoffDelay pow r t = NaN
       \<and> \<not> js_le (cappedDelay pow t) (Fin M)
       \<and> \<not> js_le (Fin 0) (cappedDelay pow t)"
proof -
  have c: "cappedDelay pow t = NaN"
    using assms by (simp add: cappedDelay_def Let_def inf_times_def Math_min_def)
  have "calculateBackoffDelay pow r t = NaN"
    by (simp add: calculateBackoffDelay_def Let_def c Math_max_def)
  then show ?thesis using c by simp
qed

theorem zero_base_overflow_gives_NaN_witness:
  "baseReconnectIntervalMs' (config (zeroBaseTransport 1024)) = Fin 0
   \<and> roundedPow (backoffFactor' (config (zeroBaseTransport 1024)))
                 (reconnectAttempts (zeroBaseTransport 1024)) = PosInf
   \<and> maxReconnectIntervalMs' (config (zeroBaseTransport 1024)) = Fin 60000
   \<and> cappedDelay roundedPow (zeroBaseTransport 1023) = Fin 0
   \<and> cappedDelay roundedPow (zeroBaseTransport 1024) = NaN
   \<and> calculateBackoffDelay roundedPow (1 / 2) (zeroBaseTransport 1024) = NaN
   \<and> \<not> js_le (cappedDelay roundedPow (zeroBaseTransport 1023))
               (cappedDelay roundedPow (zeroBaseTransport 1024))
   \<and> \<not> js_le (cappedDelay roundedPow (zeroBaseTransport 1024)) (Fin 60000)"
proof -
  have h1: "baseReconnectIntervalMs' (config (zeroBaseTransport 1024)) = Fin 0"
    by (simp only: config_zeroBaseTransport defaults_zeroBase)
  have h2: "roundedPow (backoffFactor' (config (zeroBaseTransport 1024)))
                 (reconnectAttempts (zeroBaseTransport 1024)) = PosInf"
    by (simp only: config_zeroBaseTransport defaults_zeroBase roundedPow_two_overflow)
  have h3: "maxReconnectIntervalMs' (config (zeroBaseTransport 1024)) = Fin 60000"
    by (simp only: config_zeroBaseTransport defaults_zeroBase)
  note th = zero_base_overflow_gives_NaN[where pow = roundedPow and r = "1 / 2", OF h1 h2 h3]
  have "\<not> js_le (cappedDelay roundedPow (zeroBaseTransport 1023))
               (cappedDelay roundedPow (zeroBaseTransport 1024))"
    by (simp add: capped_zero_1023 th)
  then show ?thesis using h1 h2 h3 th capped_zero_1023 by simp
qed

text \<open>
  C5, as stated, fails once the cap is active. With the default configuration and 10
  failed attempts the delay before the jitter is the maximum, 60000; for the draw 1/2
  the jitter is zero and \<open>calculateBackoffDelay\<close> returns 60000. The lower end of the
  stated range, \<open>1000 * 2^10 * (1 - jitterFactor)\<close> clamped to
  \<open>[0, 60000 * (1 + jitterFactor)]\<close>, is more than 66000.
\<close>

theorem jitter_claimed_range_counterexample:
  "baseReconnectIntervalMs' (config (openTransport\<lparr>reconnectAttempts := 10\<rparr>)) = Fin 1000
   \<and> backoffFactor' (config (openTransport\<lparr>reconnectAttempts := 10\<rparr>)) = Fin 2
   \<and> maxReconnectIntervalMs' (config (openTransport\<lparr>reconnectAttempts := 10\<rparr>)) = Fin 60000
   \<and> jitterFactor' (config (openTransport\<lparr>reconnectAttempts := 10\<rparr>))
       = Fin (3602879701896397 / 36028797018963968)
   \<and> calculateBackoffDelay roundedPow (1 / 2) (openTransport\<lparr>reconnectAttempts := 10\<rparr>)
       = Fin 60000
   \<and> 66000 \<le> claimedLower 1000 2 10 60000 (3602879701896397 / 36028797018963968)
   \<and> \<not> claimedLower 1000 2 10 60000 (3602879701896397 / 36028797018963968) \<le> 60000"
  by (simp add: config_openTransport defaults_example default_jitter delay_10_half
      claimedLower_def clamp_def)

text \<open>
  C5, amended. Let the base interval, the maximum and the jitter factor be finite and
  not negative, the draw be in \<open>[0, 1]\<close>, and \<open>Math.pow(factor, attempts)\<close> be not
  negative; leave out the product \<open>0 * Infinity\<close> of C4 and an overflow of the delay
  times the jitter factor. Then, in double arithmetic, the delay \<open>d\<close> before the jitter is
  between 0 and the maximum, and the delay returned lies between \<open>max(0, d - d * jitterFactor)\<close>
  and \<open>d + d * jitterFactor\<close>, hence between 0 and
  \<open>maxDelay + maxDelay * jitterFactor\<close>.
\<close>

theorem jittered_delay_range:
  assumes "baseReconnectIntervalMs' (config t) = Fin b" and "0 \<le> b"
    and "maxReconnectIntervalMs' (config t) = Fin M" and "0 \<le> M"
    and "jitterFactor' (config t) = Fin j" and "0 \<le> j"
    and "0 \<le> r" and "r \<le> 1"
    and "js_le (Fin 0) (pow (backoffFactor' (config t)) (reconnectAttempts t))"
    and "\<not> (b = 0 \<and> pow (backoffFactor' (config t)) (reconnectAttempts t) = PosInf)"
    and "js_mul (cappedDelay pow t) (Fin j) \<noteq> PosInf"
  shows "js_le (Fin 0) (cappedDelay pow t)
       \<and> js_le (cappedDelay pow t) (Fin M)
       \<and> js_le (Math_max (Fin 0)
                  (js_sub (cappedDelay pow t) (js_mul (cappedDelay pow t) (Fin j))))
               (calculateBackoffDelay pow r t)
       \<and> js_le (calculateBackoffDelay pow r t)
               (js_add (cappedDelay pow t) (js_mul (cappedDelay pow t) (Fin j)))
       \<and> js_le (Fin 0) (calculateBackoffDelay pow r t)
       \<and> js_le (calculateBackoffDelay pow r t) (js_add (Fin M) (js_mul (Fin M) (Fin j)))"
proof -
  obtain d where d: "cappedDelay pow t = Fin d" "0 \<le> d" "d \<le> M"
    using cappedDelay_finite[where pow = pow, OF assms(1-4,9,10)] by blast
  have dj: "0 \<le> d * j" using d(2) assms(6) by simp
  have "js_le (Fin 0) (round_double (d * j))" using dj by (rule round_nonneg)
  moreover have "round_double (d * j) \<noteq> PosInf" using assms(11) d(1) by simp
  ultimately obtain a where a: "round_double (d * j) = Fin a" "0 \<le> a"
    by (cases "round_double (d * j)") auto
  have ad: "round_double a = Fin a" using a(1) by (rule round_double_idem)
  have nad: "round_double (- a) = Fin (- a)" using ad by (rule round_neg_double)
  obtain u where u: "js_sub (js_mul (Fin r) (Fin 2)) (Fin 1) = Fin u" "- 1 \<le> u" "u \<le> 1"
    using draw_range[OF assms(7,8)] by blast
  have "a * u \<le> a" using a(2) u(3) by (simp add: mult_left_le)
  then have hi: "js_le (round_double (a * u)) (Fin a)" using ad by (rule round_le_double)
  have "- a \<le> a * u" using a(2) u(2)
    by (metis mult_left_mono mult_minus1_right)
  then have lo: "js_le (Fin (- a)) (round_double (a * u))" using nad by (rule round_ge_double)
  obtain g where g: "round_double (a * u) = Fin g" "- a \<le> g" "g \<le> a"
    using lo hi by (cases "round_double (a * u)") auto
  have res: "calculateBackoffDelay pow r t = Math_max (Fin 0) (round_double (d + g))"
    unfolding calculateBackoffDelay_def Let_def d(1) assms(5) u(1)
    by (simp add: a(1) g(1))
  have sub: "js_sub (cappedDelay pow t) (js_mul (cappedDelay pow t) (Fin j)) = round_double (d - a)"
    by (simp add: js_sub_def d(1) a(1))
  have add: "js_add (cappedDelay pow t) (js_mul (cappedDelay pow t) (Fin j)) = round_double (d + a)"
    by (simp add: d(1) a(1))
  have m1: "js_le (round_double (d - a)) (round_double (d + g))"
    using g(2) by (intro round_double_mono) simp
  have m2: "js_le (round_double (d + g)) (round_double (d + a))"
    using g(3) by (intro round_double_mono) simp
  have nn: "js_le (Fin 0) (round_double (d + a))"
    using d(2) a(2) by (intro round_nonneg) simp
  have c1: "js_le (Fin 0) (cappedDelay pow t)" using d by simp
  have c2: "js_le (cappedDelay pow t) (Fin M)" using d by simp
  have c3: "js_le (Math_max (Fin 0) (round_double (d - a))) (Math_max (Fin 0) (round_double (d + g)))"
    using m1 by (rule Math_max_mono) simp
  have c4: "js_le (Math_max (Fin 0) (round_double (d + g))) (round_double (d + a))"
    using nn m2 by (rule Math_max_upper)
  have c5: "js_le (Fin 0) (Math_max (Fin 0) (round_double (d + g)))"
    by (rule Math_max_lower) simp_all
  have "d * j \<le> M * j" using d(3) assms(6) by (simp add: mult_right_mono)
  then have aA: "js_le (Fin a) (round_double (M * j))"
    using round_double_mono[of "d * j" "M * j"] a(1) by simp
  have top: "js_le (round_double (d + a)) (js_add (Fin M) (round_double (M * j)))"
  proof (cases "round_double (M * j)")
    case (Fin A)
    then have "a \<le> A" using aA by simp
    then have "d + a \<le> M + A" using d(3) by simp
    then show ?thesis using Fin by (simp add: round_double_mono)
  next
    case PosInf
    then show ?thesis by (cases "round_double (d + a)") simp_all
  next
    case NegInf
    then show ?thesis using aA by simp
  next
    case NaN
    then show ?thesis by simp
  qed
  have c6: "js_le (Math_max (Fin 0) (round_double (d + g))) (js_add (Fin M) (js_mul (Fin M) (Fin j)))"
    using js_le_trans[OF c4 top] by simp
  show ?thesis
    unfolding res sub add using c1 c2 c3 c4 c5 c6 by (intro conjI)
qed

theorem jittered_delay_range_witness:
  "baseReconnectIntervalMs' (config (openTransport\<lparr>reconnectAttempts := 3\<rparr>)) = Fin 1000
   \<and> maxReconnectIntervalMs' (config (openTransport\<lparr>reconnectAttempts := 3\<rparr>)) = Fin 60000
   \<and> jitterFactor' (config (openTransport\<lparr>reconnectAttempts := 3\<rparr>))
       = Fin (3602879701896397 / 36028797018963968)
   \<and> roundedPow (backoffFactor' (config (openTransport\<lparr>reconnectAttempts := 3\<rparr>)))
                 (reconnectAttempts (openTransport\<lparr>reconnectAttempts := 3\<rparr>)) = Fin 8
   \<and> cappedDelay roundedPow (openTransport\<lparr>reconnectAttempts := 3\<rparr>) = Fin 8000
   \<and> js_mul (cappedDelay roundedPow (openTransport\<lparr>reconnectAttempts := 3\<rparr>))
             (Fin (3602879701896397 / 36028797018963968)) = Fin 800
   \<and> calculateBackoffDelay roundedPow (1 / 4) (openTransport\<lparr>reconnectAttempts := 3\<rparr>)
       = Fin 7600
   \<and> js_le (Math_max (Fin 0)
              (js_sub (cappedDelay roundedPow (openTransport\<lparr>reconnectAttempts := 3\<rparr>))
                 (js_mul (cappedDelay roundedPow (openTransport\<lparr>reconnectAttempts := 3\<rparr>))
                    (Fin (3602879701896397 / 36028797018963968)))))
            (calculateBackoffDelay roundedPow (1 / 4) (openTransport\<lparr>reconnectAttempts := 3\<rparr>))
   \<and> js_le (calculateBackoffDelay roundedPow (1 / 4) (openTransport\<lparr>reconnectAttempts := 3\<rparr>))
            (js_add (cappedDelay roundedPow (openTransport\<lparr>reconnectAttempts := 3\<rparr>))
               (js_mul (cappedDelay roundedPow (openTransport\<lparr>reconnectAttempts := 3\<rparr>))
                  (Fin (3602879701896397 / 36028797018963968))))
   \<and> js_le (calculateBackoffDelay roundedPow (1 / 4) (openTransport\<lparr>reconnectAttempts := 3\<rparr>))
            (js_add (Fin 60000) (js_mul (Fin 60000) (Fin (3602879701896397 / 36028797018963968))))"
proof -
  let ?t = "openTransport\<lparr>reconnectAttempts := 3\<rparr>"
  let ?j = "3602879701896397 / 36028797018963968 :: real"
  have h1: "baseReconnectIntervalMs' (config ?t) = Fin 1000"
    by (simp only: config_openTransport defaults_example)
  have h3: "maxReconnectIntervalMs' (config ?t) = Fin 60000"
    by (simp only: config_openTransport defaults_example)
  have h5: "jitterFactor' (config ?t) = Fin ?j"
    by (simp only: config_openTransport default_jitter)
  have p: "roundedPow (backoffFactor' (config ?t)) (reconnectAttempts ?t) = Fin 8"
    by (simp add: config_openTransport defaults_example round_small_int)
  have h9: "js_le (Fin 0) (roundedPow (backoffFactor' (config ?t)) (reconnectAttempts ?t))"
    unfolding p by simp
  have h10: "\<not> ((1000::real) = 0
              \<and> roundedPow (backoffFactor' (config ?t)) (reconnectAttempts ?t) = PosInf)"
    by simp
  have a: "js_mul (cappedDelay roundedPow ?t) (Fin ?j) = Fin 800"
    by (simp add: capped_3 round_jitter_8000)
  have h11: "js_mul (cappedDelay roundedPow ?t) (Fin ?j) \<noteq> PosInf"
    unfolding a by simp
  note th = jittered_delay_range[where pow = roundedPow and r = "1 / 4" and t = ?t
      and b = 1000 and M = 60000 and j = ?j, OF h1 _ h3 _ h5 _ _ _ h9 h10 h11]
  have th': "js_le (Fin 0) (cappedDelay roundedPow ?t)
       \<and> js_le (cappedDelay roundedPow ?t) (Fin 60000)
       \<and> js_le (Math_max (Fin 0)
                  (js_sub (cappedDelay roundedPow ?t) (js_mul (cappedDelay roundedPow ?t) (Fin ?j))))
               (calculateBackoffDelay roundedPow (1 / 4) ?t)
       \<and> js_le (calculateBackoffDelay roundedPow (1 / 4) ?t)
               (js_add (cappedDelay roundedPow ?t) (js_mul (cappedDelay roundedPow ?t) (Fin ?j)))
       \<and> js_le (Fin 0) (calculateBackoffDelay roundedPow (1 / 4) ?t)
       \<and> js_le (calculateBackoffDelay roundedPow (1 / 4) ?t)
               (js_add (Fin 60000) (js_mul (Fin 60000) (Fin ?j)))"
    by (rule th) simp_all
  show ?thesis
    using h1 h3 h5 p a capped_3 delay_3_quarter
      th'[THEN conjunct2, THEN conjunct2, THEN conjunct1]
      th'[THEN conjunct2, THEN conjunct2, THEN conjunct2, THEN conjunct1]
      th'[THEN conjunct2, THEN conjunct2, THEN conjunct2, THEN conjunct2, THEN conjunct2]
    by (intro conjI)
qed

section \<open>Resolving the configuration\<close>

lemma finiteNonNegative_simps [simp]:
  "finiteNonNegative (Fin x) = (0 \<le> x)"
  "finiteNonNegative PosInf = False"
  "finiteNonNegative NegInf = False"
  "finiteNonNegative NaN = False"
  by (simp_all add: finiteNonNegative_def)

lemma finiteAtLeastOne_simps [simp]:
  "finiteAtLeastOne (Fin x) = (1 \<le> x)"
  "finiteAtLeastOne PosInf = False"
  "finiteAtLeastOne NegInf = False"
  "finiteAtLeastOne NaN = False"
  by (simp_all add: finiteAtLeastOne_def)

lemma atLeastOne_nonNegative: "finiteAtLeastOne v \<Longrightarrow> finiteNonNegative v"
  by (cases v) simp_all

lemma default_jitter_valid: "finiteNonNegative (round_double (1 / 10))"
  by (simp add: round_tenth)

lemma invariant_iff_supplied: "tunablesInvariant (getConfigWithDefaults c) = suppliedTunablesValid c"
  using default_jitter_valid
  by (auto simp: tunablesInvariant_def suppliedTunablesValid_def getConfigWithDefaults_def
      nullish_def absentOr_def atLeastOne_nonNegative split: option.splits)

text \<open>
  C9, as stated, fails: \<open>getConfigWithDefaults\<close> checks nothing. A supplied backoff
  factor of 1/2, a supplied connection timeout of \<open>NaN\<close> and a supplied heartbeat
  interval of -5 are each handed on as they are, and the resolved configuration breaks
  the invariant.
\<close>

theorem defaults_invariant_counterexample:
  "backoffFactor' (getConfigWithDefaults (exampleConfig\<lparr>backoffFactor := Some (Fin (1 / 2))\<rparr>))
     = Fin (1 / 2)
   \<and> \<not> tunablesInvariant
         (getConfigWithDefaults (exampleConfig\<lparr>backoffFactor := Some (Fin (1 / 2))\<rparr>))
   \<and> connectionTimeoutMs'
        (getConfigWithDefaults (exampleConfig\<lparr>connectionTimeoutMs := Some NaN\<rparr>)) = NaN
   \<and> \<not> tunablesInvariant
         (getConfigWithDefaults (exampleConfig\<lparr>connectionTimeoutMs := Some NaN\<rparr>))
   \<and> heartbeatIntervalMs'
        (getConfigWithDefaults (exampleConfig\<lparr>heartbeatIntervalMs := Some (Fin (- 5))\<rparr>))
       = Fin (- 5)
   \<and> \<not> tunablesInvariant
         (getConfigWithDefaults (exampleConfig\<lparr>heartbeatIntervalMs := Some (Fin (- 5))\<rparr>))"
  by (simp add: getConfigWithDefaults_def exampleConfig_def nullish_def tunablesInvariant_def)

text \<open>
  C9, amended. \<open>getConfigWithDefaults\<close> is a function of the input config alone. It copies
  the six identification strings; each optional field is the supplied value when there
  is one, and otherwise its default: \<open>true\<close>, 10000, 5000, 10485760, -1, 1000, 60000, 2
  and the double nearest to 0.1. The resolved tunables are finite and not negative, with
  a backoff factor of at least 1, exactly when the supplied ones are.
\<close>

theorem defaults_invariant_iff_supplied:
  "deviceId' (getConfigWithDefaults c) = deviceId c
   \<and> deviceType' (getConfigWithDefaults c) = deviceType c
   \<and> endpoint' (getConfigWithDefaults c) = endpoint c
   \<and> tenantId' (getConfigWithDefaults c) = tenantId c
   \<and> productId' (getConfigWithDefaults c) = productId c
   \<and> productKey' (getConfigWithDefaults c) = productKey c
   \<and> enableDirectiveReceiving' (getConfigWithDefaults c)
       = (case enableDirectiveReceiving c of None \<Rightarrow> True | Some b \<Rightarrow> b)
   \<and> connectionTimeoutMs' (getConfigWithDefaults c)
       = (case connectionTimeoutMs c of None \<Rightarrow> Fin 10000 | Some x \<Rightarrow> x)
   \<and> heartbeatIntervalMs' (getConfigWithDefaults c)
       = (case heartbeatIntervalMs c of None \<Rightarrow> Fin 5000 | Some x \<Rightarrow> x)
   \<and> maxMessageSize' (getConfigWithDefaults c)
       = (case maxMessageSize c of None \<Rightarrow> Fin 10485760 | Some x \<Rightarrow> x)
   \<and> maxReconnectAttempts' (getConfigWithDefaults c)
       = (case maxReconnectAttempts c of None \<Rightarrow> Fin (- 1) | Some x \<Rightarrow> x)
   \<and> baseReconnectIntervalMs' (getConfigWithDefaults c)
       = (case baseReconnectIntervalMs c of None \<Rightarrow> Fin 1000 | Some x \<Rightarrow> x)
   \<and> maxReconnectIntervalMs' (getConfigWithDefaults c)
       = (case maxReconnectIntervalMs c of None \<Rightarrow> Fin 60000 | Some x \<Rightarrow> x)
   \<and> backoffFactor' (getConfigWithDefaults c)
       = (case backoffFactor c of None \<Rightarrow> Fin 2 | Some x \<Rightarrow> x)
   \<and> jitterFactor' (getConfigWithDefaults c)
       = (case jitterFactor c of
            None \<Rightarrow> Fin (3602879701896397 / 36028797018963968) | Some x \<Rightarrow> x)
   \<and> tunablesInvariant (getConfigWithDefaults c) = suppliedTunablesValid c"
proof -
  have fields: "deviceId' (getConfigWithDefaults c) = deviceId c"
    "deviceType' (getConfigWithDefaults c) = deviceType c"
    "endpoint' (getConfigWithDefaults c) = endpoint c"
    "tenantId' (getConfigWithDefaults c) = tenantId c"
    "productId' (getConfigWithDefaults c) = productId c"
    "productKey' (getConfigWithDefaults c) = productKey c"
    "enableDirectiveReceiving' (getConfigWithDefaults c)
       = (case enableDirectiveReceiving c of None \<Rightarrow> True | Some b \<Rightarrow> b)"
    "connectionTimeoutMs' (getConfigWithDefaults c)
       = (case connectionTimeoutMs c of None \<Rightarrow> Fin 10000 | Some x \<Rightarrow> x)"
    "heartbeatIntervalMs' (getConfigWithDefaults c)
       = (case heartbeatIntervalMs c of None \<Rightarrow> Fin 5000 | Some x \<Rightarrow> x)"
    "maxMessageSize' (getConfigWithDefaults c)
       = (case maxMessageSize c of None \<Rightarrow> Fin 10485760 | Some x \<Rightarrow> x)"
    "maxReconnectAttempts' (getConfigWithDefaults c)
       = (case maxReconnectAttempts c of None \<Rightarrow> Fin (- 1) | Some x \<Rightarrow> x)"
    "baseReconnectIntervalMs' (getConfigWithDefaults c)
       = (case baseReconnectIntervalMs c of None \<Rightarrow> Fin 1000 | Some x \<Rightarrow> x)"
    "maxReconnectIntervalMs' (getConfigWithDefaults c)
       = (case maxReconnectIntervalMs c of None \<Rightarrow> Fin 60000 | Some x \<Rightarrow> x)"
    "backoffFactor' (getConfigWithDefaults c)
       = (case backoffFactor c of None \<Rightarrow> Fin 2 | Some x \<Rightarrow> x)"
    by (simp_all add: getConfigWithDefaults_def nullish_def)
  have jitter: "jitterFactor' (getConfigWithDefaults c)
       = (case jitterFactor c of
            None \<Rightarrow> Fin (3602879701896397 / 36028797018963968) | Some x \<Rightarrow> x)"
    using round_tenth by (simp add: getConfigWithDefaults_def nullish_def)
  show ?thesis
    using fields jitter invariant_iff_supplied[of c] by (intro conjI)
qed

theorem defaults_invariant_iff_supplied_witness:
  "connectionTimeoutMs' (getConfigWithDefaults (exampleConfig\<lparr>backoffFactor := Some (Fin 3)\<rparr>))
     = Fin 10000
   \<and> heartbeatIntervalMs' (getConfigWithDefaults (exampleConfig\<lparr>backoffFactor := Some (Fin 3)\<rparr>))
     = Fin 5000
   \<and> maxMessageSize' (getConfigWithDefaults (exampleConfig\<lparr>backoffFactor := Some (Fin 3)\<rparr>))
     = Fin 10485760
   \<and> baseReconnectIntervalMs' (getConfigWithDefaults (exampleConfig\<lparr>backoffFactor := Some (Fin 3)\<rparr>))
     = Fin 1000
   \<and> maxReconnectIntervalMs' (getConfigWithDefaults (exampleConfig\<lparr>backoffFactor := Some (Fin 3)\<rparr>))
     = Fin 60000
   \<and> backoffFactor' (getConfigWithDefaults (exampleConfig\<lparr>backoffFactor := Some (Fin 3)\<rparr>))
     = Fin 3
   \<and> jitterFactor' (getConfigWithDefaults (exampleConfig\<lparr>backoffFactor := Some (Fin 3)\<rparr>))
     = Fin (3602879701896397 / 36028797018963968)
   \<and> suppliedTunablesValid (exampleConfig\<lparr>backoffFactor := Some (Fin 3)\<rparr>)
   \<and> tunablesInvariant (getConfigWithDefaults (exampleConfig\<lparr>backoffFactor := Some (Fin 3)\<rparr>))"
  using defaults_invariant_iff_supplied[of "exampleConfig\<lparr>backoffFactor := Some (Fin 3)\<rparr>"]
  by (simp add: exampleConfig_def suppliedTunablesValid_def absentOr_def)

section \<open>Statistics\<close>

text \<open>
  C10. \<open>resetStatistics\<close> sets the five counters to zero and leaves every other field of
  the transport as it was; the statistics read at the same instant before and after
  differ in those five counters only, so the connected flag, the reconnect attempts and
  the uptime are the same.
\<close>

theorem resetStatistics_frame:
  "stats (resetStatistics t)
     = \<lparr> signalsSent = 0, audioSent = 0, directivesReceived = 0, audioReceived = 0, errors = 0 \<rparr>
   \<and> config (resetStatistics t) = config t
   \<and> ws (resetStatistics t) = ws t
   \<and> connected (resetStatistics t) = connected t
   \<and> reconnectAttempts (resetStatistics t) = reconnectAttempts t
   \<and> lastActivity (resetStatistics t) = lastActivity t
   \<and> shouldReconnect (resetStatistics t) = shouldReconnect t
   \<and> heartbeatTimer (resetStatistics t) = heartbeatTimer t
   \<and> reconnectTimer (resetStatistics t) = reconnectTimer t
   \<and> connectTime (resetStatistics t) = connectTime t
   \<and> onConnected (resetStatistics t) = onConnected t
   \<and> onDirective (resetStatistics t) = onDirective t
   \<and> onAudioData (resetStatistics t) = onAudioData t
   \<and> onError (resetStatistics t) = onError t
   \<and> onClose (resetStatistics t) = onClose t
   \<and> getStatistics now (resetStatistics t)
       = (getStatistics now t)\<lparr> signalsSent' := 0, audioSent' := 0, directivesReceived' := 0,
                                 audioReceived' := 0, errors' := 0 \<rparr>
   \<and> connected' (getStatistics now (resetStatistics t)) = connected' (getStatistics now t)
   \<and> reconnectAttempts' (getStatistics now (resetStatistics t))
       = reconnectAttempts' (getStatistics now t)
   \<and> uptimeSeconds' (getStatistics now (resetStatistics t)) = uptimeSeconds' (getStatistics now t)"
  by (simp add: resetStatistics_def getStatistics_def Let_def)

section \<open>Sending a signal\<close>

text \<open>
  C6. On a connected transport, a signal whose JSON text, after the source is filled in,
  takes more bytes than \<open>maxMessageSize\<close> makes \<open>sendSignal\<close> reject with
  \<open>SIGNAL_TOO_LARGE\<close>; the transport is unchanged, so nothing is handed to the socket and
  \<open>signalsSent\<close> keeps its value, and no callback is invoked.
\<close>

theorem oversized_signal_rejected:
  assumes "connected t"
    and "js_gt (Fin (real (byteLength_utf8 (Signal_toJSON stringify (autoFillSource t signal)))))
               (maxMessageSize' (config t))"
  shows "sendSignal stringify now outcome t signal
           = (Inl (StreamIndError SIGNAL_TOO_LARGE (js ''SIGNAL_TOO_LARGE'')),
              t, autoFillSource t signal, [])
       \<and> ws (fst (snd (sendSignal stringify now outcome t signal))) = ws t
       \<and> signalsSent (stats (fst (snd (sendSignal stringify now outcome t signal))))
           = signalsSent (stats t)"
  using assms by (simp add: sendSignal_def Let_def new_StreamIndError_def)

theorem oversized_signal_rejected_witness:
  "sendSignal (\<lambda>v. js ''{\"uuid\":\"sig_1000_1\"}'') 2000 None smallLimitTransport exampleSignal
     = (Inl (StreamIndError SIGNAL_TOO_LARGE (js ''SIGNAL_TOO_LARGE'')),
        smallLimitTransport, autoFillSource smallLimitTransport exampleSignal, [])
   \<and> ws (fst (snd (sendSignal (\<lambda>v. js ''{\"uuid\":\"sig_1000_1\"}'') 2000 None
                       smallLimitTransport exampleSignal)))
       = Some \<lparr> handed = [] \<rparr>
   \<and> signalsSent (stats (fst (snd (sendSignal (\<lambda>v. js ''{\"uuid\":\"sig_1000_1\"}'') 2000 None
                       smallLimitTransport exampleSignal)))) = 0"
proof -
  have c: "connected smallLimitTransport" by (simp add: smallLimitTransport_def)
  have m: "maxMessageSize' (config smallLimitTransport) = Fin 10"
    by (simp add: smallLimitTransport_def new_WebSocketTransport_def getConfigWithDefaults_def
          nullish_def exampleConfig_def)
  have b: "js_gt (Fin (real (byteLength_utf8 (Signal_toJSON (\<lambda>v. js ''{\"uuid\":\"sig_1000_1\"}'')
                   (autoFillSource smallLimitTransport exampleSignal)))))
             (maxMessageSize' (config smallLimitTransport))"
    unfolding m by (simp add: Signal_toJSON_def js_def js_gt_def)
  have w: "ws smallLimitTransport = Some \<lparr> handed = [] \<rparr>"
    "signalsSent (stats smallLimitTransport) = 0"
    by (simp_all add: smallLimitTransport_def new_WebSocketTransport_def)
  show ?thesis
    using oversized_signal_rejected[OF c b, of 2000 None] w by simp
qed

section \<open>The terminal registry\<close>

text \<open>
  C7. Registering an id that the registry already holds returns \<open>ALREADY_INITIALIZED\<close>;
  the map of terminals is the same afterwards, the id still maps to the terminal first
  registered, and the only field of the SDK that changes is \<open>lastError\<close>.
\<close>

theorem duplicate_registration_rejected:
  assumes "terminals sdk terminalId = Some term"
  shows "fst (registerTerminal terminalId cfg sdk) = ALREADY_INITIALIZED
       \<and> terminals (snd (registerTerminal terminalId cfg sdk)) = terminals sdk
       \<and> terminals (snd (registerTerminal terminalId cfg sdk)) terminalId = Some term
       \<and> snd (registerTerminal terminalId cfg sdk)
           = sdk\<lparr>lastError := js ''Terminal '' @ terminalId @ js '' already registered''\<rparr>"
  using assms by (simp add: registerTerminal_def dom_def)

theorem duplicate_registration_rejected_witness:
  "fst (registerTerminal (js ''t1'') (exampleConfig\<lparr>deviceId := js ''device-2''\<rparr>)
          (snd (registerTerminal (js ''t1'') exampleConfig emptySDK))) = ALREADY_INITIALIZED
   \<and> terminals (snd (registerTerminal (js ''t1'') (exampleConfig\<lparr>deviceId := js ''device-2''\<rparr>)
          (snd (registerTerminal (js ''t1'') exampleConfig emptySDK))))
       = terminals (snd (registerTerminal (js ''t1'') exampleConfig emptySDK))
   \<and> terminals (snd (registerTerminal (js ''t1'') (exampleConfig\<lparr>deviceId := js ''device-2''\<rparr>)
          (snd (registerTerminal (js ''t1'') exampleConfig emptySDK)))) (js ''t1'')
       = Some \<lparr> terminal_config = exampleConfig,
                 terminal_transport = new_WebSocketTransport exampleConfig \<rparr>"
proof -
  have r: "terminals (snd (registerTerminal (js ''t1'') exampleConfig emptySDK)) (js ''t1'')
             = Some \<lparr> terminal_config = exampleConfig,
                       terminal_transport = new_WebSocketTransport exampleConfig \<rparr>"
    by (simp add: registerTerminal_def emptySDK_def Let_def)
  show ?thesis
    using duplicate_registration_rejected[OF r, of "exampleConfig\<lparr>deviceId := js ''device-2''\<rparr>"]
    by blast
qed

section \<open>Directives\<close>





lemma parseInt10_empty [simp]: "parseInt10 [] = NaN"
  by (simp add: parseInt10_def)










lemma getInt_number:
  assumes "parameters d = JObj kvs" and "map_of kvs key = Some (JNum x)"
  shows "getIntParameter tbl num2str d key dn = Inr (Math_floor x)"
  using assms by (simp add: getIntParameter_def)







end
